theory Spec2Isabelle
  imports Main "HOL-Library.Word"
begin

unbundle bit_operations_syntax

section \<open>JavaScript values\<close>

text \<open>
  The values the instrumentation inspects at run time. \<open>JNum\<close> carries the
  integer-valued numbers (a port is one); \<open>JObj r\<close> is a reference to the command
  object stored at address \<open>r\<close>. Thrown and rejected values are \<open>Error\<close> objects,
  as \<open>endSpan\<close> (\<open>NodeJS.ErrnoException | null | undefined\<close>) and the failure
  callback (\<open>err: Error\<close>) declare them.
\<close>

datatype jsval = JUndefined | JNull | JBool bool | JNum int | JStr string | JObj nat

datatype js_error = JsError (message: string)

datatype 'a completion = Return 'a | Throw js_error

text \<open>The \<open>typeof\<close> operator; \<open>typeof null\<close> is \<open>"object"\<close>.\<close>

fun typeof :: "jsval \<Rightarrow> string" where
  "typeof JUndefined = ''undefined''"
| "typeof JNull = ''object''"
| "typeof (JBool b) = ''boolean''"
| "typeof (JNum n) = ''number''"
| "typeof (JStr s) = ''string''"
| "typeof (JObj r) = ''object''"

text \<open>
  Decimal digits of a number, for template literals (the way JavaScript prints an
  integer below \<open>10^21\<close>).
\<close>

definition digit :: "nat \<Rightarrow> char" where
  "digit d =
     (if d = 0 then CHR ''0'' else if d = 1 then CHR ''1'' else if d = 2 then CHR ''2''
      else if d = 3 then CHR ''3'' else if d = 4 then CHR ''4'' else if d = 5 then CHR ''5''
      else if d = 6 then CHR ''6'' else if d = 7 then CHR ''7'' else if d = 8 then CHR ''8''
      else CHR ''9'')"

fun digits :: "nat \<Rightarrow> string" where
  "digits n = (if n < 10 then [digit n] else digits (n div 10) @ [digit (n mod 10)])"

declare digits.simps [simp del]

text \<open>
  String conversion inside a template literal \<open>`${v}`\<close>, for the values a host
  (\<open>string | undefined\<close>) and a port (\<open>number | undefined\<close>) can take.
\<close>

fun template_str :: "jsval \<Rightarrow> string" where
  "template_str JUndefined = ''undefined''"
| "template_str JNull = ''null''"
| "template_str (JBool b) = (if b then ''true'' else ''false'')"
| "template_str (JNum n) = (if n < 0 then CHR ''-'' # digits (nat (- n)) else digits (nat n))"
| "template_str (JStr s) = s"
| "template_str (JObj r) = ''[object Object]''"

fun opt_str :: "string option \<Rightarrow> jsval" where
  "opt_str None = JUndefined"
| "opt_str (Some s) = JStr s"

fun opt_num :: "int option \<Rightarrow> jsval" where
  "opt_num None = JUndefined"
| "opt_num (Some n) = JNum n"

section \<open>Attributes and the convention mode\<close>

text \<open>
  An attribute object: its own properties in insertion order. Assigning to a key that
  exists overwrites the value in place, a new key is appended.
\<close>

type_synonym attributes = "(string \<times> jsval) list"

fun set_prop :: "string \<Rightarrow> jsval \<Rightarrow> attributes \<Rightarrow> attributes" where
  "set_prop k v [] = [(k, v)]"
| "set_prop k v (p # ps) = (if fst p = k then (k, v) # ps else p # set_prop k v ps)"

text \<open>\<open>Object.assign(target, source)\<close>: every property of the source, in order.\<close>

definition object_assign :: "attributes \<Rightarrow> attributes \<Rightarrow> attributes" where
  "object_assign target source = foldl (\<lambda>acc kv. set_prop (fst kv) (snd kv) acc) target source"

text \<open>
  Modelled from the spec: the \<open>SemconvStability\<close> flags of
  \<open>@opentelemetry/instrumentation\<close>, two independent bits (\<open>STABLE\<close>, \<open>OLD\<close>);
  the source tests them with the 32-bit \<open>&\<close>.
\<close>

type_synonym SemconvStability = "32 word"

definition STABLE :: SemconvStability where "STABLE = 1"
definition OLD :: SemconvStability where "OLD = 2"
definition DUPLICATE :: SemconvStability where "DUPLICATE = 3"

definition flag_set :: "SemconvStability \<Rightarrow> SemconvStability \<Rightarrow> bool" where
  "flag_set mode flag = (mode AND flag \<noteq> 0)"

text \<open>
  Modelled from the spec: the attribute keys of \<open>./semconv\<close> and
  \<open>@opentelemetry/semantic-conventions\<close>, as the README's table names them.
\<close>

definition ATTR_DB_SYSTEM :: string where "ATTR_DB_SYSTEM = ''db.system''"
definition ATTR_NET_PEER_NAME :: string where "ATTR_NET_PEER_NAME = ''net.peer.name''"
definition ATTR_NET_PEER_PORT :: string where "ATTR_NET_PEER_PORT = ''net.peer.port''"
definition ATTR_DB_CONNECTION_STRING :: string where
  "ATTR_DB_CONNECTION_STRING = ''db.connection_string''"
definition ATTR_DB_STATEMENT :: string where "ATTR_DB_STATEMENT = ''db.statement''"
definition ATTR_DB_SYSTEM_NAME :: string where "ATTR_DB_SYSTEM_NAME = ''db.system.name''"
definition ATTR_SERVER_ADDRESS :: string where "ATTR_SERVER_ADDRESS = ''server.address''"
definition ATTR_SERVER_PORT :: string where "ATTR_SERVER_PORT = ''server.port''"
definition ATTR_DB_QUERY_TEXT :: string where "ATTR_DB_QUERY_TEXT = ''db.query.text''"
definition ATTR_DB_OPERATION_NAME :: string where
  "ATTR_DB_OPERATION_NAME = ''db.operation.name''"
definition DB_SYSTEM_VALUE_REDIS :: string where "DB_SYSTEM_VALUE_REDIS = ''redis''"
definition DB_SYSTEM_NAME_VALUE_REDIS :: string where "DB_SYSTEM_NAME_VALUE_REDIS = ''redis''"

definition legacy_keys :: "string list" where
  "legacy_keys =
     [ATTR_DB_SYSTEM, ATTR_NET_PEER_NAME, ATTR_NET_PEER_PORT, ATTR_DB_CONNECTION_STRING]"

definition stable_keys :: "string list" where
  "stable_keys = [ATTR_DB_SYSTEM_NAME, ATTR_SERVER_ADDRESS, ATTR_SERVER_PORT]"

subsection \<open>utils.ts: getClientAttributes\<close>

definition getClientAttributes ::
  "string option \<Rightarrow> int option \<Rightarrow> SemconvStability \<Rightarrow> attributes" where
  "getClientAttributes host port semconvStability =
     (let attributes = [];
          attributes =
            (if flag_set semconvStability OLD
             then object_assign attributes
                    [(ATTR_DB_SYSTEM, JStr DB_SYSTEM_VALUE_REDIS),
                     (ATTR_NET_PEER_NAME, opt_str host),
                     (ATTR_NET_PEER_PORT, opt_num port),
                     (ATTR_DB_CONNECTION_STRING,
                      JStr (''redis://'' @ template_str (opt_str host) @ '':''
                            @ template_str (opt_num port)))]
             else attributes);
          attributes =
            (if flag_set semconvStability STABLE
             then object_assign attributes
                    [(ATTR_DB_SYSTEM_NAME, JStr DB_SYSTEM_NAME_VALUE_REDIS),
                     (ATTR_SERVER_ADDRESS, opt_str host),
                     (ATTR_SERVER_PORT, opt_num port)]
             else attributes)
      in attributes)"

text \<open>The own keys of an attribute object, and the value under a key.\<close>

definition keys :: "attributes \<Rightarrow> string set" where
  "keys a = fst ` set a"

definition get_prop :: "attributes \<Rightarrow> string \<Rightarrow> jsval option" where
  "get_prop a k = map_of a k"

section \<open>The tracing collaborators, the client and the world\<close>

text \<open>
  Modelled from the spec: \<open>SpanKind\<close> and \<open>SpanStatusCode\<close> of \<open>@opentelemetry/api\<close>.
  A new span's status is \<open>UNSET\<close>; the source names \<open>ERROR\<close> and \<open>CLIENT\<close> only.
\<close>

datatype span_kind = INTERNAL | SERVER | CLIENT | PRODUCER | CONSUMER

datatype status_code = UNSET | OK | ERROR

text \<open>The descriptor handed to a request hook.\<close>

record request_info =
  moduleVersion :: "string option"
  cmdName :: string
  cmdArgs :: "jsval list"

text \<open>
  The configuration object (\<open>IORedisInstrumentationConfig\<close>). Every property is
  optional; a user function is held by its tag, its behaviour is given by the environment
  below. \<open>requireParentSpan\<close> is \<open>None\<close> when the object has no such property and
  \<open>Some v\<close> when it has one, whatever the value (also \<open>undefined\<close>).
\<close>

record config =
  dbStatementSerializer :: "nat option"
  requestHook :: "nat option"
  responseHook :: "nat option"
  requireParentSpan :: "jsval option"

text \<open>
  The two callback slots of a command. A slot holds either a function of the client
  (by its tag) or one of the closures the interceptor installs, which capture
  \<open>config\<close>, \<open>span\<close>, \<open>cmd\<close> and the callback they replace.
\<close>

datatype resolve_fn =
    NativeResolve nat
  | TracedResolve config nat nat resolve_fn

datatype reject_fn =
    NativeReject nat
  | TracedReject nat reject_fn

record command =
  name :: string
  args :: "jsval list"
  resolve :: resolve_fn
  reject :: reject_fn

text \<open>
  The state of the client and the application: \<open>this.options\<close>, the command objects
  by address, and whatever else the application holds.
\<close>

record 'c client_state =
  options_host :: "string option"
  options_port :: "int option"
  commands :: "nat \<Rightarrow> command"
  app :: 'c

text \<open>
  Every call the component makes to a collaborator, in the order it makes them: the
  tracer and the span (\<open>startSpan\<close>, \<open>recordException\<close>, \<open>setStatus\<close>, \<open>end\<close>),
  the diagnostic channel, the user's functions, the original entry point and the
  original callbacks.
\<close>

datatype event =
    StartSpan nat string span_kind attributes
  | RecordException nat js_error
  | SetStatus nat status_code string
  | EndSpan nat
  | DiagError string js_error
  | CallSerializer "nat option" string "jsval list"
  | CallRequestHook nat nat request_info
  | CallResponseHook nat nat string "jsval list" jsval
  | CallOriginal "jsval list"
  | CallResolve nat jsval
  | CallReject nat js_error

text \<open>
  The world: the record of calls, the span of the ambient context
  (\<open>trace.getSpan(context.active())\<close>, \<open>None\<close> for \<open>undefined\<close>) and the state of
  the client. The functions of the environment run on the client's state alone: a span
  is a local of the wrapper that opened it, and they do not call back into the closures
  while they run.
\<close>

record 'c world =
  events :: "event list"
  active_span :: "nat option"
  client :: "'c client_state"

type_synonym ('c, 'a) client_fn = "'c client_state \<Rightarrow> 'a completion \<times> 'c client_state"

text \<open>
  The behaviour of the functions this component calls but does not define: the user's
  serializers and hooks and the client's callbacks by tag, and the default serializer
  of \<open>@opentelemetry/redis-common\<close>. Each runs on the client's state and returns or
  throws.
\<close>

record 'c environment =
  defaultDbStatementSerializer :: "string \<Rightarrow> jsval list \<Rightarrow> ('c, jsval) client_fn"
  serializers :: "nat \<Rightarrow> string \<Rightarrow> jsval list \<Rightarrow> ('c, jsval) client_fn"
  requestHooks :: "nat \<Rightarrow> nat \<Rightarrow> request_info \<Rightarrow> ('c, unit) client_fn"
  responseHooks :: "nat \<Rightarrow> nat \<Rightarrow> string \<Rightarrow> jsval list \<Rightarrow> jsval \<Rightarrow> ('c, unit) client_fn"
  resolvers :: "nat \<Rightarrow> jsval \<Rightarrow> ('c, unit) client_fn"
  rejecters :: "nat \<Rightarrow> js_error \<Rightarrow> ('c, unit) client_fn"

text \<open>The instance: its current configuration and \<open>_semconvStability\<close>.\<close>

record instrumentation =
  getConfig :: config
  semconvStability :: SemconvStability

definition emit :: "event \<Rightarrow> 'c world \<Rightarrow> 'c world" where
  "emit e w = w\<lparr>events := events w @ [e]\<rparr>"

text \<open>A call of a collaborator's function: the call is recorded, the client's state is the callee's.\<close>

definition call_fn :: "event \<Rightarrow> ('c, 'a) client_fn \<Rightarrow> 'c world \<Rightarrow> 'a completion \<times> 'c world" where
  "call_fn e f w = (let (r, c) = f (client w) in (r, (emit e w)\<lparr>client := c\<rparr>))"

definition is_StartSpan :: "event \<Rightarrow> bool" where
  "is_StartSpan e = (case e of StartSpan _ _ _ _ \<Rightarrow> True | _ \<Rightarrow> False)"

text \<open>\<open>tracer.startSpan(name, {kind, attributes})\<close>: the new span is the next one.\<close>

definition startSpan :: "string \<Rightarrow> span_kind \<Rightarrow> attributes \<Rightarrow> 'c world \<Rightarrow> nat \<times> 'c world" where
  "startSpan nm kind attrs w =
     (let span = length (filter is_StartSpan (events w))
      in (span, emit (StartSpan span nm kind attrs) w))"

text \<open>
  Modelled from the spec: \<open>safeExecuteInTheMiddle\<close> of \<open>@opentelemetry/instrumentation\<close>,
  which is not among the sources. It runs \<open>execute\<close>, hands the caught error (or none)
  and the result to \<open>onFinish\<close>, and throws the error again only when
  \<open>preventThrowingError\<close> is not set: "hook exceptions are caught and logged, never
  propagated".
\<close>

definition safeExecuteInTheMiddle ::
  "('w \<Rightarrow> 'a completion \<times> 'w) \<Rightarrow> (js_error option \<Rightarrow> 'a option \<Rightarrow> 'w \<Rightarrow> 'w) \<Rightarrow> bool
     \<Rightarrow> 'w \<Rightarrow> 'a option completion \<times> 'w" where
  "safeExecuteInTheMiddle execute onFinish preventThrowingError w =
     (case execute w of
        (Return result, w1) \<Rightarrow> (Return (Some result), onFinish None (Some result) w1)
      | (Throw error, w1) \<Rightarrow>
          (let w2 = onFinish (Some error) None w1
           in if \<not> preventThrowingError then (Throw error, w2) else (Return None, w2)))"

subsection \<open>utils.ts: endSpan\<close>

definition endSpan :: "nat \<Rightarrow> js_error option \<Rightarrow> 'c world \<Rightarrow> 'c world" where
  "endSpan span err w =
     (let w1 = (case err of
                  Some e \<Rightarrow> emit (SetStatus span ERROR (message e)) (emit (RecordException span e) w)
                | None \<Rightarrow> w)
      in emit (EndSpan span) w1)"

section \<open>instrumentation.ts\<close>

definition DEFAULT_CONFIG :: config where
  "DEFAULT_CONFIG =
     \<lparr>dbStatementSerializer = None, requestHook = None, responseHook = None,
      requireParentSpan = Some (JBool True)\<rparr>"

text \<open>The object spread \<open>{ ...a, ...b }\<close>: a property of \<open>b\<close> wins, whatever its value.\<close>

definition spread :: "config \<Rightarrow> config \<Rightarrow> config" where
  "spread a b =
     \<lparr>dbStatementSerializer =
        (case dbStatementSerializer b of Some f \<Rightarrow> Some f | None \<Rightarrow> dbStatementSerializer a),
      requestHook = (case requestHook b of Some f \<Rightarrow> Some f | None \<Rightarrow> requestHook a),
      responseHook = (case responseHook b of Some f \<Rightarrow> Some f | None \<Rightarrow> responseHook a),
      requireParentSpan =
        (case requireParentSpan b of Some v \<Rightarrow> Some v | None \<Rightarrow> requireParentSpan a)\<rparr>"

text \<open>
  \<open>setConfig\<close> (and the constructor, which does the same). The mode is what
  \<open>semconvStabilityFromStr\<close> makes of the environment variable; it is a parameter here.
\<close>

definition setConfig :: "config \<Rightarrow> SemconvStability \<Rightarrow> instrumentation" where
  "setConfig cfg mode = \<lparr>getConfig = spread DEFAULT_CONFIG cfg, semconvStability = mode\<rparr>"

text \<open>
  \<open>original.apply(this, arguments)\<close>, for an original that is a step on the client's
  state and calls nothing back while it runs. An original that settles commands while it
  runs is \<open>apply_run\<close>, further down.
\<close>

definition apply_original ::
  "(jsval list \<Rightarrow> ('c, jsval) client_fn) \<Rightarrow> jsval list \<Rightarrow> 'c world \<Rightarrow> jsval completion \<times> 'c world" where
  "apply_original original arguments w = call_fn (CallOriginal arguments) (original arguments) w"

text \<open>Lines 127 and 128: \<open>config.dbStatementSerializer || defaultDbStatementSerializer\<close>.\<close>

definition the_serializer ::
  "'c environment \<Rightarrow> nat option \<Rightarrow> string \<Rightarrow> jsval list \<Rightarrow> ('c, jsval) client_fn" where
  "the_serializer E f =
     (case f of Some k \<Rightarrow> serializers E k | None \<Rightarrow> defaultDbStatementSerializer E)"

text \<open>Line 149: the call of the serializer.\<close>

definition run_serializer ::
  "'c environment \<Rightarrow> nat option \<Rightarrow> string \<Rightarrow> jsval list \<Rightarrow> 'c world \<Rightarrow> jsval completion \<times> 'c world" where
  "run_serializer E f nm as w = call_fn (CallSerializer f nm as) (the_serializer E f nm as) w"

definition request_hook_failed :: "js_error option \<Rightarrow> 'a option \<Rightarrow> 'c world \<Rightarrow> 'c world" where
  "request_hook_failed e r w =
     (case e of Some err \<Rightarrow> emit (DiagError ''ioredis instrumentation: request hook failed'' err) w
      | None \<Rightarrow> w)"

definition response_hook_failed :: "js_error option \<Rightarrow> 'a option \<Rightarrow> 'c world \<Rightarrow> 'c world" where
  "response_hook_failed e r w =
     (case e of Some err \<Rightarrow> emit (DiagError ''ioredis instrumentation: response hook failed'' err) w
      | None \<Rightarrow> w)"

text \<open>
  Lines 188 to 196: the response hook, if there is one, inside
  \<open>safeExecuteInTheMiddle\<close>. \<open>cmd.name\<close> and \<open>cmd.args\<close> are read when the
  closure runs.
\<close>

definition run_response_hook ::
  "'c environment \<Rightarrow> config \<Rightarrow> nat \<Rightarrow> nat \<Rightarrow> jsval \<Rightarrow> 'c world
     \<Rightarrow> unit option completion \<times> 'c world" where
  "run_response_hook E config span cmd result w =
     safeExecuteInTheMiddle
       (\<lambda>w. case responseHook config of
               None \<Rightarrow> (Return (), w)
             | Some h \<Rightarrow>
                 (let c = commands (client w) cmd
                  in call_fn (CallResponseHook h span (name c) (args c) result)
                       (responseHooks E h span (name c) (args c) result) w))
       response_hook_failed True w"

text \<open>
  The closures installed in the callback slots (lines 187 to 206), and a call of
  whatever a slot holds.
\<close>

fun call_resolve :: "'c environment \<Rightarrow> resolve_fn \<Rightarrow> jsval \<Rightarrow> 'c world \<Rightarrow> unit completion \<times> 'c world" where
  "call_resolve E (NativeResolve k) result w = call_fn (CallResolve k result) (resolvers E k result) w"
| "call_resolve E (TracedResolve config span cmd origResolve) result w =
     (case run_response_hook E config span cmd result w of
        (Throw e, w1) \<Rightarrow> (Throw e, w1)
      | (Return u, w1) \<Rightarrow> call_resolve E origResolve result (endSpan span None w1))"

fun call_reject :: "'c environment \<Rightarrow> reject_fn \<Rightarrow> js_error \<Rightarrow> 'c world \<Rightarrow> unit completion \<times> 'c world" where
  "call_reject E (NativeReject k) err w = call_fn (CallReject k err) (rejecters E k err) w"
| "call_reject E (TracedReject span origReject) err w =
     call_reject E origReject err (endSpan span (Some err) w)"

text \<open>Lines 139 to 147: the client's attributes and, in the stable mode, the operation's name.\<close>

definition command_attributes ::
  "SemconvStability \<Rightarrow> string option \<Rightarrow> int option \<Rightarrow> string \<Rightarrow> attributes" where
  "command_attributes mode host port operationName =
     (let attributes = getClientAttributes host port mode
      in if flag_set mode STABLE
         then set_prop ATTR_DB_OPERATION_NAME (JStr operationName) attributes
         else attributes)"

text \<open>Lines 150 to 157: the statement, when the serializer gave one (\<open>!= null\<close>).\<close>

definition add_statement :: "SemconvStability \<Rightarrow> jsval \<Rightarrow> attributes \<Rightarrow> attributes" where
  "add_statement mode dbStatement attributes =
     (if dbStatement \<noteq> JNull \<and> dbStatement \<noteq> JUndefined
      then (let attributes =
                  (if flag_set mode OLD
                   then set_prop ATTR_DB_STATEMENT dbStatement attributes
                   else attributes)
            in if flag_set mode STABLE
               then set_prop ATTR_DB_QUERY_TEXT dbStatement attributes
               else attributes)
      else attributes)"

text \<open>Lines 164 to 180: the request hook, if there is one, inside \<open>safeExecuteInTheMiddle\<close>.\<close>

definition run_request_hook ::
  "'c environment \<Rightarrow> config \<Rightarrow> string option \<Rightarrow> nat \<Rightarrow> nat \<Rightarrow> 'c world
     \<Rightarrow> unit completion \<times> 'c world" where
  "run_request_hook E config modVersion span cmd w =
     (case requestHook config of
        Some h \<Rightarrow>
          (let info = \<lparr>moduleVersion = modVersion,
                       cmdName = name (commands (client w) cmd),
                       cmdArgs = args (commands (client w) cmd)\<rparr>
           in case safeExecuteInTheMiddle
                     (call_fn (CallRequestHook h span info) (requestHooks E h span info))
                     request_hook_failed True w of
                (Throw e, w1) \<Rightarrow> (Throw e, w1)
              | (Return u, w1) \<Rightarrow> (Return (), w1))
      | None \<Rightarrow> (Return (), w))"

text \<open>
  Lines 135 to 180 of \<open>_traceSendCommand\<close>: the attributes, the statement, the span
  and the request hook. A serializer that throws ends the call before a span exists.
\<close>

definition start_command_span ::
  "'c environment \<Rightarrow> instrumentation \<Rightarrow> config \<Rightarrow> string option \<Rightarrow> nat \<Rightarrow> 'c world
     \<Rightarrow> nat completion \<times> 'c world" where
  "start_command_span E instr config modVersion cmd w =
     (let operationName = name (commands (client w) cmd);
          host = options_host (client w);
          port = options_port (client w);
          attributes = command_attributes (semconvStability instr) host port operationName
      in case run_serializer E (dbStatementSerializer config)
                (name (commands (client w) cmd)) (args (commands (client w) cmd)) w of
           (Throw e, w1) \<Rightarrow> (Throw e, w1)
         | (Return dbStatement, w1) \<Rightarrow>
             (let attributes = add_statement (semconvStability instr) dbStatement attributes;
                  (span, w2) = startSpan (name (commands (client w1) cmd)) CLIENT attributes w1
              in case run_request_hook E config modVersion span cmd w2 of
                   (Throw e, w3) \<Rightarrow> (Throw e, w3)
                 | (Return u, w3) \<Rightarrow> (Return span, w3)))"

text \<open>
  Lines 182 to 212: the original dispatch inside \<open>try\<close>, the substitution of the two
  callbacks after it has returned, and the \<open>catch\<close>.
\<close>

definition dispatch_traced ::
  "config \<Rightarrow> (jsval list \<Rightarrow> ('c, jsval) client_fn) \<Rightarrow> jsval list \<Rightarrow> nat \<Rightarrow> nat \<Rightarrow> 'c world
     \<Rightarrow> jsval completion \<times> 'c world" where
  "dispatch_traced config original arguments cmd span w =
     (case apply_original original arguments w of
        (Return result, w1) \<Rightarrow>
          (let origResolve = resolve (commands (client w1) cmd);
               w2 = w1\<lparr>client := (client w1)\<lparr>commands := (commands (client w1))
                      (cmd := (commands (client w1) cmd)
                         \<lparr>resolve := TracedResolve config span cmd origResolve\<rparr>)\<rparr>\<rparr>;
               origReject = reject (commands (client w2) cmd);
               w3 = w2\<lparr>client := (client w2)\<lparr>commands := (commands (client w2))
                      (cmd := (commands (client w2) cmd)
                         \<lparr>reject := TracedReject span origReject\<rparr>)\<rparr>\<rparr>
           in (Return result, w3))
      | (Throw error, w1) \<Rightarrow> (Throw error, endSpan span (Some error) w1))"

text \<open>
  Modelled from the spec: the \<open>TypeError\<close> the engine throws when a property of
  \<open>null\<close> is read (\<open>cmd.name\<close> at line 135).
\<close>

definition null_property_error :: js_error where
  "null_property_error = JsError ''Cannot read properties of null (reading 'name')''"

definition traceSendCommand ::
  "'c environment \<Rightarrow> instrumentation \<Rightarrow> (jsval list \<Rightarrow> ('c, jsval) client_fn) \<Rightarrow> string option
     \<Rightarrow> jsval list \<Rightarrow> 'c world \<Rightarrow> jsval completion \<times> 'c world" where
  "traceSendCommand E instr original modVersion arguments w =
     (case arguments of
        [] \<Rightarrow> apply_original original arguments w
      | cmd # rest \<Rightarrow>
          if typeof cmd \<noteq> ''object'' then apply_original original arguments w
          else
            (let config = getConfig instr;
                 hasNoParentSpan = (active_span w = None)
             in if requireParentSpan config = Some (JBool True) \<and> hasNoParentSpan
                then apply_original original arguments w
                else
                  (case cmd of
                     JObj r \<Rightarrow>
                       (case start_command_span E instr config modVersion r w of
                          (Throw e, w1) \<Rightarrow> (Throw e, w1)
                        | (Return span, w1) \<Rightarrow> dispatch_traced config original arguments r span w1)
                   | _ \<Rightarrow> (Throw null_property_error, w))))"

text \<open>Lines 227 to 244 of \<open>_traceConnection\<close>: the attributes and the span.\<close>

definition connect_attributes :: "SemconvStability \<Rightarrow> string option \<Rightarrow> int option \<Rightarrow> attributes" where
  "connect_attributes mode host port =
     (let attributes = getClientAttributes host port mode;
          attributes =
            (if flag_set mode OLD
             then set_prop ATTR_DB_STATEMENT (JStr ''connect'') attributes
             else attributes)
      in if flag_set mode STABLE
         then set_prop ATTR_DB_QUERY_TEXT (JStr ''connect'') attributes
         else attributes)"

definition start_connect_span :: "instrumentation \<Rightarrow> 'c world \<Rightarrow> nat \<times> 'c world" where
  "start_connect_span instr w =
     (let host = options_host (client w);
          port = options_port (client w);
          attributes = connect_attributes (semconvStability instr) host port
      in startSpan ''connect'' CLIENT attributes w)"

definition traceConnection ::
  "instrumentation \<Rightarrow> (jsval list \<Rightarrow> ('c, jsval) client_fn) \<Rightarrow> jsval list \<Rightarrow> 'c world
     \<Rightarrow> jsval completion \<times> 'c world" where
  "traceConnection instr original arguments w =
     (let hasNoParentSpan = (active_span w = None)
      in if requireParentSpan (getConfig instr) = Some (JBool True) \<and> hasNoParentSpan
         then apply_original original arguments w
         else
           (let (span, w1) = start_connect_span instr w
            in case apply_original original arguments w1 of
                 (Return redis, w2) \<Rightarrow> (Return redis, endSpan span None w2)
               | (Throw error, w2) \<Rightarrow> (Throw error, endSpan span (Some error) w2)))"

text \<open>
  The settlement of a command's deferred result: the client calls what the command's
  success slot, or its failure slot, holds at that moment.
\<close>

datatype settlement = Resolved jsval | Rejected js_error

definition settle :: "'c environment \<Rightarrow> nat \<Rightarrow> settlement \<Rightarrow> 'c world \<Rightarrow> unit completion \<times> 'c world" where
  "settle E cmd s w =
     (case s of
        Resolved result \<Rightarrow> call_resolve E (resolve (commands (client w) cmd)) result w
      | Rejected err \<Rightarrow> call_reject E (reject (commands (client w) cmd)) err w)"

text \<open>What a run added to the record of calls.\<close>

definition new_events :: "'c world \<Rightarrow> 'c world \<Rightarrow> event list" where
  "new_events w w' = drop (length (events w)) (events w')"

section \<open>An original that calls back\<close>

text \<open>
  The original entry point receives the command and may settle it, or another one,
  before it returns (a client rejects a command at once when its connection has ended).
  A run is what an original does, step by step: it looks at the client's state, changes
  it, calls what a slot of a command holds at that moment and goes on with what the
  call returned or threw, and in the end returns or throws itself. It does not send a
  command through the patched entry point again.
\<close>

datatype 'c run =
    Finish "jsval completion"
  | Inspect "'c client_state \<Rightarrow> 'c run"
  | Change "'c client_state \<Rightarrow> 'c client_state" "'c run"
  | Settle nat settlement "unit completion \<Rightarrow> 'c run"







section \<open>Vocabulary of the properties\<close>






text \<open>What \<open>endSpan\<close> calls on the span.\<close>

definition closing_calls :: "nat \<Rightarrow> js_error option \<Rightarrow> event list" where
  "closing_calls span err =
     (case err of
        Some e \<Rightarrow> [RecordException span e, SetStatus span ERROR (message e), EndSpan span]
      | None \<Rightarrow> [EndSpan span])"

text \<open>The spans captured by the closures in a slot, outermost first.\<close>

fun resolve_spans :: "resolve_fn \<Rightarrow> nat list" where
  "resolve_spans (NativeResolve k) = []"
| "resolve_spans (TracedResolve config span cmd f) = span # resolve_spans f"

fun reject_spans :: "reject_fn \<Rightarrow> nat list" where
  "reject_spans (NativeReject k) = []"
| "reject_spans (TracedReject span f) = span # reject_spans f"

text \<open>
  A closure in a slot can only capture a span that was started. \<open>bounded m c\<close>: every
  span captured in a slot of \<open>c\<close> is below \<open>m\<close>; a world is well formed when its slots
  are bounded by the number of spans started so far.
\<close>

definition bounded :: "nat \<Rightarrow> 'c client_state \<Rightarrow> bool" where
  "bounded m c =
     (\<forall>r. (\<forall>s \<in> set (resolve_spans (resolve (commands c r))). s < m)
        \<and> (\<forall>s \<in> set (reject_spans (reject (commands c r))). s < m))"


text \<open>
  The code outside this component cannot make such a closure: whatever it does to the
  client's state, the slots it leaves capture no span that was not captured before.
\<close>

definition keeps :: "('c client_state \<Rightarrow> 'c client_state) \<Rightarrow> bool" where
  "keeps f = (\<forall>m c. bounded m c \<longrightarrow> bounded m (f c))"

definition env_keeps :: "'c environment \<Rightarrow> bool" where
  "env_keeps E =
     ((\<forall>nm as. keeps (\<lambda>c. snd (defaultDbStatementSerializer E nm as c)))
      \<and> (\<forall>k nm as. keeps (\<lambda>c. snd (serializers E k nm as c)))
      \<and> (\<forall>h s i. keeps (\<lambda>c. snd (requestHooks E h s i c)))
      \<and> (\<forall>h s nm as v. keeps (\<lambda>c. snd (responseHooks E h s nm as v c)))
      \<and> (\<forall>k v. keeps (\<lambda>c. snd (resolvers E k v c)))
      \<and> (\<forall>k e. keeps (\<lambda>c. snd (rejecters E k e c))))"

primrec run_keeps :: "'c run \<Rightarrow> bool" where
  "run_keeps (Finish result) = True"
| "run_keeps (Inspect k) = (\<forall>c. run_keeps (k c))"
| "run_keeps (Change f k) = (keeps f \<and> run_keeps k)"
| "run_keeps (Settle cmd s k) = (\<forall>res. run_keeps (k res))"

text \<open>
  What a hook's call site is to add to the record: the call of the hook, if one is
  configured, and the error on the diagnostic channel if the hook throws.
\<close>

definition request_hook_calls ::
  "'c environment \<Rightarrow> config \<Rightarrow> string option \<Rightarrow> nat \<Rightarrow> nat \<Rightarrow> 'c client_state \<Rightarrow> event list" where
  "request_hook_calls E cfg mv span cmd c =
     (case requestHook cfg of
        None \<Rightarrow> []
      | Some h \<Rightarrow>
          (let info = \<lparr>moduleVersion = mv, cmdName = name (commands c cmd),
                       cmdArgs = args (commands c cmd)\<rparr>
           in CallRequestHook h span info #
              (case fst (requestHooks E h span info c) of
                 Throw err \<Rightarrow> [DiagError ''ioredis instrumentation: request hook failed'' err]
               | Return u \<Rightarrow> [])))"

definition response_hook_calls ::
  "'c environment \<Rightarrow> config \<Rightarrow> nat \<Rightarrow> nat \<Rightarrow> jsval \<Rightarrow> 'c client_state \<Rightarrow> event list" where
  "response_hook_calls E cfg span cmd result c =
     (case responseHook cfg of
        None \<Rightarrow> []
      | Some h \<Rightarrow>
          CallResponseHook h span (name (commands c cmd)) (args (commands c cmd)) result #
          (case fst (responseHooks E h span (name (commands c cmd)) (args (commands c cmd)) result c) of
             Throw err \<Rightarrow> [DiagError ''ioredis instrumentation: response hook failed'' err]
           | Return u \<Rightarrow> []))"

definition is_DiagError :: "event \<Rightarrow> bool" where
  "is_DiagError e = (case e of DiagError m x \<Rightarrow> True | _ \<Rightarrow> False)"

text \<open>The record of calls without the diagnostic channel.\<close>

definition without_diag :: "event list \<Rightarrow> event list" where
  "without_diag evs = filter (\<lambda>e. \<not> is_DiagError e) evs"

text \<open>A hook with the same effect on the client's state that returns instead of throwing.\<close>

definition silence :: "('c, unit) client_fn \<Rightarrow> ('c, unit) client_fn" where
  "silence f c = (Return (), snd (f c))"

definition silence_hooks :: "'c environment \<Rightarrow> 'c environment" where
  "silence_hooks E =
     E\<lparr>requestHooks := (\<lambda>h span info. silence (requestHooks E h span info)),
       responseHooks := (\<lambda>h span nm as result. silence (responseHooks E h span nm as result))\<rparr>"

text \<open>Two worlds that differ at most in what went to the diagnostic channel.\<close>

definition same_but_diag :: "'c world \<Rightarrow> 'c world \<Rightarrow> bool" where
  "same_but_diag w w' =
     (client w = client w' \<and> active_span w = active_span w'
      \<and> without_diag (events w) = without_diag (events w'))"

subsection \<open>A concrete client, for the examples\<close>

definition demo_env :: "unit environment" where
  "demo_env =
     \<lparr>defaultDbStatementSerializer = (\<lambda>nm as c. (Return (JStr nm), c)),
      serializers = (\<lambda>k nm as c. (Return JNull, c)),
      requestHooks = (\<lambda>h span info c. (Throw (JsError ''request hook''), c)),
      responseHooks = (\<lambda>h span nm as result c. (Throw (JsError ''response hook''), c)),
      resolvers = (\<lambda>k v c. (Return (), c)),
      rejecters = (\<lambda>k e c. (Return (), c))\<rparr>"

definition demo_command :: command where
  "demo_command =
     \<lparr>name = ''get'', args = [JStr ''foo''], resolve = NativeResolve 7, reject = NativeReject 8\<rparr>"

definition demo_client :: "unit client_state" where
  "demo_client =
     \<lparr>options_host = Some ''localhost'', options_port = Some 6379,
      commands = (\<lambda>r. demo_command), app = ()\<rparr>"

text \<open>A world with an active span in the ambient context, and one without.\<close>

definition demo_world :: "unit world" where
  "demo_world = \<lparr>events = [], active_span = Some 0, client = demo_client\<rparr>"

definition orphan_world :: "unit world" where
  "orphan_world = \<lparr>events = [], active_span = None, client = demo_client\<rparr>"

definition demo_config :: config where
  "demo_config =
     \<lparr>dbStatementSerializer = None, requestHook = Some 1, responseHook = Some 2,
      requireParentSpan = None\<rparr>"

text \<open>The instance with the default configuration merged in, in the old mode.\<close>

definition demo_instr :: instrumentation where
  "demo_instr = setConfig demo_config OLD"


text \<open>
  Two instances in the mode that emits both conventions: one with the default
  serializer, one with a custom serializer (which, in \<open>demo_env\<close>, returns \<open>null\<close>).
\<close>

definition dual_instr :: instrumentation where
  "dual_instr = setConfig demo_config DUPLICATE"

definition null_serializer_instr :: instrumentation where
  "null_serializer_instr =
     setConfig \<lparr>dbStatementSerializer = Some 3, requestHook = None, responseHook = None,
                requireParentSpan = None\<rparr> DUPLICATE"

definition orig_ok :: "jsval list \<Rightarrow> (unit, jsval) client_fn" where
  "orig_ok as c = (Return (JStr ''OK''), c)"

definition orig_fail :: "jsval list \<Rightarrow> (unit, jsval) client_fn" where
  "orig_fail as c = (Throw (JsError ''boom''), c)"

text \<open>
  An original that rejects the command itself while it runs and then returns, and an
  environment whose custom serializer throws.
\<close>

definition orig_rejects_at_once :: "jsval list \<Rightarrow> unit run" where
  "orig_rejects_at_once as =
     Settle 0 (Rejected (JsError ''Connection is closed.'')) (\<lambda>res. Finish (Return (JStr ''OK'')))"


section \<open>Lemmas\<close>

subsection \<open>The attribute builder\<close>

lemmas attr_names =
  ATTR_DB_SYSTEM_def ATTR_NET_PEER_NAME_def ATTR_NET_PEER_PORT_def
  ATTR_DB_CONNECTION_STRING_def ATTR_DB_STATEMENT_def ATTR_DB_SYSTEM_NAME_def
  ATTR_SERVER_ADDRESS_def ATTR_SERVER_PORT_def ATTR_DB_QUERY_TEXT_def
  ATTR_DB_OPERATION_NAME_def

lemma keys_set_prop: "keys (set_prop k v a) = insert k (keys a)"
  by (induction a) (auto simp: keys_def)

lemma get_prop_set_prop:
  "get_prop (set_prop k v a) k' = (if k' = k then Some v else get_prop a k')"
  by (induction a) (auto simp: get_prop_def)

lemma keys_Nil: "keys [] = {}"
  by (simp add: keys_def)

lemma get_prop_None_iff: "get_prop a k = None \<longleftrightarrow> k \<notin> keys a"
  by (simp add: get_prop_def keys_def map_of_eq_None_iff)

lemma keys_object_assign: "keys (object_assign target source) = keys target \<union> keys source"
proof -
  have "keys (foldl (\<lambda>acc kv. set_prop (fst kv) (snd kv) acc) target source)
        = keys target \<union> fst ` set source"
    by (induction source arbitrary: target) (auto simp: keys_set_prop)
  then show ?thesis by (simp add: object_assign_def keys_def)
qed

lemma keys_Cons: "keys ((k, v) # a) = insert k (keys a)"
  by (simp add: keys_def)

lemma keys_getClientAttributes:
  "keys (getClientAttributes host port mode) =
     (if flag_set mode OLD then set legacy_keys else {})
     \<union> (if flag_set mode STABLE then set stable_keys else {})"
  by (auto simp: getClientAttributes_def keys_object_assign keys_Cons keys_Nil
        legacy_keys_def stable_keys_def)

lemma legacy_stable_disjoint: "set legacy_keys \<inter> set stable_keys = {}"
  by (simp add: legacy_keys_def stable_keys_def attr_names)

lemma getClientAttributes_eq:
  "getClientAttributes host port mode =
     (if flag_set mode OLD
      then [(ATTR_DB_SYSTEM, JStr DB_SYSTEM_VALUE_REDIS), (ATTR_NET_PEER_NAME, opt_str host),
            (ATTR_NET_PEER_PORT, opt_num port),
            (ATTR_DB_CONNECTION_STRING,
             JStr (''redis://'' @ template_str (opt_str host) @ '':'' @ template_str (opt_num port)))]
      else [])
     @ (if flag_set mode STABLE
        then [(ATTR_DB_SYSTEM_NAME, JStr DB_SYSTEM_NAME_VALUE_REDIS),
              (ATTR_SERVER_ADDRESS, opt_str host), (ATTR_SERVER_PORT, opt_num port)]
        else [])"
  by (simp add: getClientAttributes_def object_assign_def attr_names)

lemma flag_examples:
  "flag_set DUPLICATE OLD" "flag_set DUPLICATE STABLE"
  "flag_set OLD OLD" "\<not> flag_set OLD STABLE"
  "flag_set STABLE STABLE" "\<not> flag_set STABLE OLD"
  by (simp_all add: flag_set_def DUPLICATE_def OLD_def STABLE_def)

subsection \<open>The record of calls only grows\<close>

lemma events_emit: "events (emit e w) = events w @ [e]"
  and client_emit: "client (emit e w) = client w"
  and active_span_emit: "active_span (emit e w) = active_span w"
  by (simp_all add: emit_def)

lemma fst_call_fn: "fst (call_fn e f w) = fst (f (client w))"
  and events_call_fn: "events (snd (call_fn e f w)) = events w @ [e]"
  and client_call_fn: "client (snd (call_fn e f w)) = snd (f (client w))"
  and active_span_call_fn: "active_span (snd (call_fn e f w)) = active_span w"
  by (simp_all add: call_fn_def emit_def split: prod.split)

lemma events_endSpan: "events (endSpan s err w) = events w @ closing_calls s err"
  and client_endSpan: "client (endSpan s err w) = client w"
  and active_span_endSpan: "active_span (endSpan s err w) = active_span w"
  by (simp_all add: endSpan_def closing_calls_def emit_def split: option.split)

lemma fst_startSpan: "fst (startSpan nm k a w) = length (filter is_StartSpan (events w))"
  and events_startSpan:
    "events (snd (startSpan nm k a w)) =
       events w @ [StartSpan (length (filter is_StartSpan (events w))) nm k a]"
  and client_startSpan: "client (snd (startSpan nm k a w)) = client w"
  and active_span_startSpan: "active_span (snd (startSpan nm k a w)) = active_span w"
  by (simp_all add: startSpan_def emit_def Let_def)

lemmas world_simps =
  events_emit client_emit active_span_emit
  fst_call_fn events_call_fn client_call_fn active_span_call_fn
  events_endSpan client_endSpan active_span_endSpan
  fst_startSpan events_startSpan client_startSpan active_span_startSpan

lemma new_events_append: "events w' = events w @ X \<Longrightarrow> new_events w w' = X"
  by (simp add: new_events_def)

lemma fst_apply_original: "fst (apply_original original as w) = fst (original as (client w))"
  and events_apply_original: "events (snd (apply_original original as w)) = events w @ [CallOriginal as]"
  and client_apply_original: "client (snd (apply_original original as w)) = snd (original as (client w))"
  and active_span_apply_original: "active_span (snd (apply_original original as w)) = active_span w"
  by (simp_all add: apply_original_def world_simps)

lemma new_events_apply_original:
  "new_events w (snd (apply_original original as w)) = [CallOriginal as]"
  by (simp add: new_events_append events_apply_original)

subsection \<open>The two guards\<close>

lemma traceSendCommand_no_argument:
  "traceSendCommand E instr original mv [] w = apply_original original [] w"
  by (simp add: traceSendCommand_def)

lemma traceSendCommand_not_object:
  "typeof cmd \<noteq> ''object'' \<Longrightarrow>
   traceSendCommand E instr original mv (cmd # rest) w = apply_original original (cmd # rest) w"
  by (simp add: traceSendCommand_def)

lemma traceSendCommand_no_parent:
  assumes "requireParentSpan (getConfig instr) = Some (JBool True)" and "active_span w = None"
  shows "traceSendCommand E instr original mv as w = apply_original original as w"
  using assms by (cases as) (simp_all add: traceSendCommand_def)

lemma traceConnection_no_parent:
  assumes "requireParentSpan (getConfig instr) = Some (JBool True)" and "active_span w = None"
  shows "traceConnection instr original as w = apply_original original as w"
  using assms by (simp add: traceConnection_def)

lemma traceSendCommand_traced:
  assumes "\<not> (requireParentSpan (getConfig instr) = Some (JBool True) \<and> active_span w = None)"
  shows "traceSendCommand E instr original mv (JObj r # rest) w =
     (case start_command_span E instr (getConfig instr) mv r w of
        (Throw e, w1) \<Rightarrow> (Throw e, w1)
      | (Return span, w1) \<Rightarrow> dispatch_traced (getConfig instr) original (JObj r # rest) r span w1)"
  using assms by (auto simp: traceSendCommand_def Let_def)

lemma traceSendCommand_null:
  assumes "\<not> (requireParentSpan (getConfig instr) = Some (JBool True) \<and> active_span w = None)"
  shows "traceSendCommand E instr original mv (JNull # rest) w = (Throw null_property_error, w)"
  using assms by (auto simp: traceSendCommand_def Let_def)

lemma traceConnection_traced:
  assumes "\<not> (requireParentSpan (getConfig instr) = Some (JBool True) \<and> active_span w = None)"
  shows "traceConnection instr original as w =
     (case apply_original original as (snd (start_connect_span instr w)) of
        (Return redis, w2) \<Rightarrow> (Return redis, endSpan (fst (start_connect_span instr w)) None w2)
      | (Throw error, w2) \<Rightarrow> (Throw error, endSpan (fst (start_connect_span instr w)) (Some error) w2))"
  using assms by (auto simp: traceConnection_def Let_def case_prod_unfold)

subsection \<open>The merged configuration of the examples\<close>

lemma demo_setConfig:
  "getConfig (setConfig demo_config mode) =
     \<lparr>dbStatementSerializer = None, requestHook = Some 1, responseHook = Some 2,
      requireParentSpan = Some (JBool True)\<rparr>"
  "semconvStability (setConfig demo_config mode) = mode"
  by (simp_all add: setConfig_def spread_def demo_config_def DEFAULT_CONFIG_def)

subsection \<open>The hooks' call sites\<close>

lemma safeExecuteInTheMiddle_prevent:
  "fst (safeExecuteInTheMiddle ex fin True w) =
     Return (case fst (ex w) of Return x \<Rightarrow> Some x | Throw e \<Rightarrow> None)"
  "snd (safeExecuteInTheMiddle ex fin True w) =
     (case fst (ex w) of
        Return x \<Rightarrow> fin None (Some x) (snd (ex w))
      | Throw e \<Rightarrow> fin (Some e) None (snd (ex w)))"
  by (simp_all add: safeExecuteInTheMiddle_def split: prod.split completion.split)

lemma fst_run_request_hook: "fst (run_request_hook E cfg mv s r w) = Return ()"
  by (simp add: run_request_hook_def Let_def safeExecuteInTheMiddle_def
      split: option.split prod.split completion.split)

lemma events_run_request_hook:
  "events (snd (run_request_hook E cfg mv s r w)) =
     events w @ request_hook_calls E cfg mv s r (client w)"
  by (simp add: run_request_hook_def request_hook_calls_def Let_def safeExecuteInTheMiddle_def
        request_hook_failed_def call_fn_def emit_def
      split: option.split prod.split completion.split)

lemma client_run_request_hook:
  "client (snd (run_request_hook E cfg mv s r w)) =
     (case requestHook cfg of
        None \<Rightarrow> client w
      | Some h \<Rightarrow>
          snd (requestHooks E h s
                 \<lparr>moduleVersion = mv, cmdName = name (commands (client w) r),
                  cmdArgs = args (commands (client w) r)\<rparr> (client w)))"
  by (simp add: run_request_hook_def Let_def safeExecuteInTheMiddle_def
        request_hook_failed_def call_fn_def emit_def
      split: option.split prod.split completion.split)

lemma active_span_run_request_hook:
  "active_span (snd (run_request_hook E cfg mv s r w)) = active_span w"
  by (simp add: run_request_hook_def Let_def safeExecuteInTheMiddle_def
        request_hook_failed_def call_fn_def emit_def
      split: option.split prod.split completion.split)

lemma fst_run_response_hook: "\<exists>u. fst (run_response_hook E cfg s r v w) = Return u"
  by (simp add: run_response_hook_def safeExecuteInTheMiddle_prevent)

lemma events_run_response_hook:
  "events (snd (run_response_hook E cfg s r v w)) =
     events w @ response_hook_calls E cfg s r v (client w)"
  by (simp add: run_response_hook_def response_hook_calls_def Let_def safeExecuteInTheMiddle_def
        response_hook_failed_def call_fn_def emit_def
      split: option.split prod.split completion.split)

lemma client_run_response_hook:
  "client (snd (run_response_hook E cfg s r v w)) =
     (case responseHook cfg of
        None \<Rightarrow> client w
      | Some h \<Rightarrow>
          snd (responseHooks E h s (name (commands (client w) r))
                 (args (commands (client w) r)) v (client w)))"
  by (simp add: run_response_hook_def Let_def safeExecuteInTheMiddle_def
        response_hook_failed_def call_fn_def emit_def
      split: option.split prod.split completion.split)

lemma active_span_run_response_hook:
  "active_span (snd (run_response_hook E cfg s r v w)) = active_span w"
  by (simp add: run_response_hook_def Let_def safeExecuteInTheMiddle_def
        response_hook_failed_def call_fn_def emit_def
      split: option.split prod.split completion.split)




lemma starts_request_hook_calls: "filter is_StartSpan (request_hook_calls E cfg mv s r c) = []"
  by (simp add: is_StartSpan_def request_hook_calls_def Let_def split: option.split completion.split)



subsection \<open>The closures\<close>

lemma call_reject_traced:
  "call_reject E (TracedReject s f) e w = call_reject E f e (endSpan s (Some e) w)"
  by simp

lemma call_resolve_traced:
  "call_resolve E (TracedResolve cfg s r f) v w =
     call_resolve E f v (endSpan s None (snd (run_response_hook E cfg s r v w)))"
proof -
  obtain u where "fst (run_response_hook E cfg s r v w) = Return u"
    using fst_run_response_hook by blast
  then show ?thesis
    by (cases "run_response_hook E cfg s r v w") simp
qed





subsection \<open>Opening the span of a command\<close>

lemma fst_run_serializer: "fst (run_serializer E f nm as w) = fst (the_serializer E f nm as (client w))"
  and events_run_serializer: "events (snd (run_serializer E f nm as w)) = events w @ [CallSerializer f nm as]"
  and client_run_serializer: "client (snd (run_serializer E f nm as w)) = snd (the_serializer E f nm as (client w))"
  and active_span_run_serializer: "active_span (snd (run_serializer E f nm as w)) = active_span w"
  by (simp_all add: run_serializer_def world_simps)

lemma start_command_span_unfold:
  "start_command_span E instr cfg mv r w =
     (let c = commands (client w) r;
          w1 = snd (run_serializer E (dbStatementSerializer cfg) (name c) (args c) w)
      in case fst (run_serializer E (dbStatementSerializer cfg) (name c) (args c) w) of
           Throw e \<Rightarrow> (Throw e, w1)
         | Return stmt \<Rightarrow>
             (let attrs = add_statement (semconvStability instr) stmt
                            (command_attributes (semconvStability instr)
                               (options_host (client w)) (options_port (client w)) (name c));
                  w2 = snd (startSpan (name (commands (client w1) r)) CLIENT attrs w1)
              in (Return (length (filter is_StartSpan (events w1))),
                  snd (run_request_hook E cfg mv (length (filter is_StartSpan (events w1))) r w2))))"
  by (simp add: start_command_span_def Let_def case_prod_unfold fst_run_request_hook
        fst_startSpan split: completion.split)

lemma is_StartSpan_simps:
  "is_StartSpan (StartSpan s nm k a)"
  "\<not> is_StartSpan (RecordException s e)"
  "\<not> is_StartSpan (SetStatus s c m)"
  "\<not> is_StartSpan (EndSpan s)"
  "\<not> is_StartSpan (DiagError m e)"
  "\<not> is_StartSpan (CallSerializer f nm as)"
  "\<not> is_StartSpan (CallRequestHook h s i)"
  "\<not> is_StartSpan (CallResponseHook h s nm as v)"
  "\<not> is_StartSpan (CallOriginal as)"
  "\<not> is_StartSpan (CallResolve n v)"
  "\<not> is_StartSpan (CallReject n e)"
  by (simp_all add: is_StartSpan_def)



lemma start_command_span_returned:
  fixes E instr cfg mv r w
  defines "c \<equiv> commands (client w) r"
  defines "c1 \<equiv> snd (the_serializer E (dbStatementSerializer cfg) (name c) (args c) (client w))"
  defines "s \<equiv> length (filter is_StartSpan (events w))"
  assumes ser: "fst (the_serializer E (dbStatementSerializer cfg) (name c) (args c) (client w))
                  = Return stmt"
  shows "fst (start_command_span E instr cfg mv r w) = Return s"
    and "events (snd (start_command_span E instr cfg mv r w)) =
           events w @
           ([CallSerializer (dbStatementSerializer cfg) (name c) (args c),
             StartSpan s (name (commands c1 r)) CLIENT
               (add_statement (semconvStability instr) stmt
                  (command_attributes (semconvStability instr)
                     (options_host (client w)) (options_port (client w)) (name c)))]
            @ request_hook_calls E cfg mv s r c1)"
    and "active_span (snd (start_command_span E instr cfg mv r w)) = active_span w"
  using ser unfolding c_def c1_def s_def
  by (simp_all add: start_command_span_unfold Let_def fst_run_serializer events_run_serializer
        client_run_serializer active_span_run_serializer is_StartSpan_simps
        events_run_request_hook active_span_run_request_hook
        events_startSpan client_startSpan active_span_startSpan)


subsection \<open>The original dispatch and the substitution of the callbacks\<close>

lemma dispatch_traced_thrown:
  assumes "fst (original as (client w)) = Throw e"
  shows "fst (dispatch_traced cfg original as r s w) = Throw e"
    and "events (snd (dispatch_traced cfg original as r s w)) =
           events w @ (CallOriginal as # closing_calls s (Some e))"
    and "client (snd (dispatch_traced cfg original as r s w)) = snd (original as (client w))"
    and "active_span (snd (dispatch_traced cfg original as r s w)) = active_span w"
proof -
  have a: "apply_original original as w = (Throw e, snd (apply_original original as w))"
    using assms fst_apply_original [of original as w]
    by (cases "apply_original original as w") simp
  show "fst (dispatch_traced cfg original as r s w) = Throw e"
    unfolding dispatch_traced_def by (subst a) simp
  show "events (snd (dispatch_traced cfg original as r s w)) =
           events w @ (CallOriginal as # closing_calls s (Some e))"
    unfolding dispatch_traced_def
    by (subst a) (simp add: events_endSpan events_apply_original)
  show "client (snd (dispatch_traced cfg original as r s w)) = snd (original as (client w))"
    unfolding dispatch_traced_def
    by (subst a) (simp add: client_endSpan client_apply_original)
  show "active_span (snd (dispatch_traced cfg original as r s w)) = active_span w"
    unfolding dispatch_traced_def
    by (subst a) (simp add: active_span_endSpan active_span_apply_original)
qed

lemma dispatch_traced_returned:
  fixes original as w r
  defines "c \<equiv> snd (original as (client w))"
  assumes "fst (original as (client w)) = Return v"
  shows "fst (dispatch_traced cfg original as r s w) = Return v"
    and "events (snd (dispatch_traced cfg original as r s w)) = events w @ [CallOriginal as]"
    and "client (snd (dispatch_traced cfg original as r s w)) =
           c\<lparr>commands := (commands c)
               (r := (commands c r)\<lparr>resolve := TracedResolve cfg s r (resolve (commands c r)),
                                    reject := TracedReject s (reject (commands c r))\<rparr>)\<rparr>"
    and "active_span (snd (dispatch_traced cfg original as r s w)) = active_span w"
proof -
  have a: "apply_original original as w = (Return v, snd (apply_original original as w))"
    using assms fst_apply_original [of original as w]
    by (cases "apply_original original as w") simp
  show "fst (dispatch_traced cfg original as r s w) = Return v"
    unfolding dispatch_traced_def by (subst a) (simp add: Let_def)
  show "events (snd (dispatch_traced cfg original as r s w)) = events w @ [CallOriginal as]"
    unfolding dispatch_traced_def
    by (subst a) (simp add: Let_def events_apply_original)
  show "client (snd (dispatch_traced cfg original as r s w)) =
           c\<lparr>commands := (commands c)
               (r := (commands c r)\<lparr>resolve := TracedResolve cfg s r (resolve (commands c r)),
                                    reject := TracedReject s (reject (commands c r))\<rparr>)\<rparr>"
    unfolding dispatch_traced_def c_def
    by (subst a) (simp add: Let_def client_apply_original)
  show "active_span (snd (dispatch_traced cfg original as r s w)) = active_span w"
    unfolding dispatch_traced_def
    by (subst a) (simp add: Let_def active_span_apply_original)
qed

text \<open>A traced command: the span is opened, then the original is dispatched.\<close>

lemma traceSendCommand_opened:
  assumes "\<not> (requireParentSpan (getConfig instr) = Some (JBool True) \<and> active_span w = None)"
    and "fst (start_command_span E instr (getConfig instr) mv r w) = Return s"
  shows "traceSendCommand E instr original mv (JObj r # rest) w =
           dispatch_traced (getConfig instr) original (JObj r # rest) r s
             (snd (start_command_span E instr (getConfig instr) mv r w))"
  using assms(2)
  by (cases "start_command_span E instr (getConfig instr) mv r w")
     (simp add: traceSendCommand_traced [OF assms(1)])

lemma traceSendCommand_serializer_thrown:
  assumes "\<not> (requireParentSpan (getConfig instr) = Some (JBool True) \<and> active_span w = None)"
    and "fst (start_command_span E instr (getConfig instr) mv r w) = Throw e"
  shows "traceSendCommand E instr original mv (JObj r # rest) w =
           (Throw e, snd (start_command_span E instr (getConfig instr) mv r w))"
  using assms(2)
  by (cases "start_command_span E instr (getConfig instr) mv r w")
     (simp add: traceSendCommand_traced [OF assms(1)])

subsection \<open>The span of a connect call\<close>

lemma fst_start_connect_span: "fst (start_connect_span instr w) = length (filter is_StartSpan (events w))"
  and events_start_connect_span:
    "events (snd (start_connect_span instr w)) =
       events w @ [StartSpan (length (filter is_StartSpan (events w))) ''connect'' CLIENT
                     (connect_attributes (semconvStability instr)
                        (options_host (client w)) (options_port (client w)))]"
  and client_start_connect_span: "client (snd (start_connect_span instr w)) = client w"
  and active_span_start_connect_span: "active_span (snd (start_connect_span instr w)) = active_span w"
  by (simp_all add: start_connect_span_def Let_def world_simps)

lemma traceConnection_opened:
  fixes instr original as w
  defines "s \<equiv> length (filter is_StartSpan (events w))"
  defines "r \<equiv> original as (client w)"
  assumes "\<not> (requireParentSpan (getConfig instr) = Some (JBool True) \<and> active_span w = None)"
  shows "fst (traceConnection instr original as w) = fst r"
    and "events (snd (traceConnection instr original as w)) =
           events w @
           ([StartSpan s ''connect'' CLIENT
               (connect_attributes (semconvStability instr)
                  (options_host (client w)) (options_port (client w))),
             CallOriginal as]
            @ closing_calls s (case fst r of Return v \<Rightarrow> None | Throw e \<Rightarrow> Some e))"
    and "client (snd (traceConnection instr original as w)) = snd r"
    and "active_span (snd (traceConnection instr original as w)) = active_span w"
proof -
  let ?w1 = "snd (start_connect_span instr w)"
  have a: "apply_original original as ?w1 = (fst r, snd (apply_original original as ?w1))"
    using fst_apply_original [of original as ?w1]
    by (cases "apply_original original as ?w1") (simp add: r_def client_start_connect_span)
  show "fst (traceConnection instr original as w) = fst r"
    unfolding traceConnection_traced [OF assms(3)]
    by (subst a) (simp split: completion.split)
  show "events (snd (traceConnection instr original as w)) =
           events w @
           ([StartSpan s ''connect'' CLIENT
               (connect_attributes (semconvStability instr)
                  (options_host (client w)) (options_port (client w))),
             CallOriginal as]
            @ closing_calls s (case fst r of Return v \<Rightarrow> None | Throw e \<Rightarrow> Some e))"
    unfolding traceConnection_traced [OF assms(3)]
    by (subst a)
       (simp add: s_def events_endSpan events_apply_original events_start_connect_span
          fst_start_connect_span split: completion.split)
  show "client (snd (traceConnection instr original as w)) = snd r"
    unfolding traceConnection_traced [OF assms(3)]
    by (subst a)
       (simp add: r_def client_endSpan client_apply_original client_start_connect_span
          split: completion.split)
  show "active_span (snd (traceConnection instr original as w)) = active_span w"
    unfolding traceConnection_traced [OF assms(3)]
    by (subst a)
       (simp add: active_span_endSpan active_span_apply_original active_span_start_connect_span
          split: completion.split)
qed

subsection \<open>A traced command, end to end\<close>

lemma closing_calls_Some:
  "closing_calls s (Some e) = [RecordException s e, SetStatus s ERROR (message e), EndSpan s]"
  by (simp add: closing_calls_def)


lemma traceSendCommand_thrown:
  fixes E instr original mv r rest w
  defines "w1 \<equiv> snd (start_command_span E instr (getConfig instr) mv r w)"
  assumes traced: "\<not> (requireParentSpan (getConfig instr) = Some (JBool True) \<and> active_span w = None)"
    and opened: "fst (start_command_span E instr (getConfig instr) mv r w) = Return s"
    and thrown: "fst (original (JObj r # rest) (client w1)) = Throw e"
  shows "fst (traceSendCommand E instr original mv (JObj r # rest) w) = Throw e"
    and "events (snd (traceSendCommand E instr original mv (JObj r # rest) w)) =
           events w1 @ (CallOriginal (JObj r # rest) # closing_calls s (Some e))"
    and "client (snd (traceSendCommand E instr original mv (JObj r # rest) w)) =
           snd (original (JObj r # rest) (client w1))"
  using thrown unfolding w1_def traceSendCommand_opened [OF traced opened]
  by (simp_all add: dispatch_traced_thrown)

lemma traceSendCommand_returned:
  fixes E instr original mv r rest w
  defines "w1 \<equiv> snd (start_command_span E instr (getConfig instr) mv r w)"
  defines "c \<equiv> snd (original (JObj r # rest) (client w1))"
  assumes traced: "\<not> (requireParentSpan (getConfig instr) = Some (JBool True) \<and> active_span w = None)"
    and opened: "fst (start_command_span E instr (getConfig instr) mv r w) = Return s"
    and returned: "fst (original (JObj r # rest) (client w1)) = Return v"
  shows "fst (traceSendCommand E instr original mv (JObj r # rest) w) = Return v"
    and "events (snd (traceSendCommand E instr original mv (JObj r # rest) w)) =
           events w1 @ [CallOriginal (JObj r # rest)]"
    and "client (snd (traceSendCommand E instr original mv (JObj r # rest) w)) =
           c\<lparr>commands := (commands c)
               (r := (commands c r)
                  \<lparr>resolve := TracedResolve (getConfig instr) s r (resolve (commands c r)),
                   reject := TracedReject s (reject (commands c r))\<rparr>)\<rparr>"
  using returned unfolding w1_def c_def traceSendCommand_opened [OF traced opened]
  by (simp_all add: dispatch_traced_returned)



subsection \<open>The concrete client, traced\<close>

lemma demo_instr_config:
  "getConfig demo_instr =
     \<lparr>dbStatementSerializer = None, requestHook = Some 1, responseHook = Some 2,
      requireParentSpan = Some (JBool True)\<rparr>"
  "semconvStability demo_instr = OLD"
  by (simp_all add: demo_instr_def demo_setConfig)

lemma demo_traced:
  "\<not> (requireParentSpan (getConfig demo_instr) = Some (JBool True) \<and> active_span demo_world = None)"
  by (simp add: demo_world_def)

lemma demo_serializer:
  "fst (the_serializer demo_env (dbStatementSerializer (getConfig demo_instr))
          (name (commands (client demo_world) 0)) (args (commands (client demo_world) 0))
          (client demo_world)) = Return (JStr ''get'')"
  by (simp add: demo_instr_config the_serializer_def demo_env_def demo_world_def demo_client_def
        demo_command_def)

lemma demo_opened:
  "fst (start_command_span demo_env demo_instr (getConfig demo_instr) None 0 demo_world) = Return 0"
  using start_command_span_returned(1) [OF demo_serializer, of demo_instr None]
  by (simp add: demo_world_def)

lemma orig_fail_throws: "fst (orig_fail as c) = Throw (JsError ''boom'')"
  by (simp add: orig_fail_def)

lemma orig_ok_returns: "fst (orig_ok as c) = Return (JStr ''OK'')"
  by (simp add: orig_ok_def)

lemma client_start_command_span:
  fixes E cfg r w
  defines "c \<equiv> commands (client w) r"
  defines "c1 \<equiv> snd (the_serializer E (dbStatementSerializer cfg) (name c) (args c) (client w))"
  shows "client (snd (start_command_span E instr cfg mv r w)) =
     (case fst (the_serializer E (dbStatementSerializer cfg) (name c) (args c) (client w)) of
        Throw e \<Rightarrow> c1
      | Return stmt \<Rightarrow>
          (case requestHook cfg of
             None \<Rightarrow> c1
           | Some h \<Rightarrow>
               snd (requestHooks E h (length (filter is_StartSpan (events w)))
                      \<lparr>moduleVersion = mv, cmdName = name (commands c1 r),
                       cmdArgs = args (commands c1 r)\<rparr> c1)))"
  unfolding c_def c1_def
  by (simp add: start_command_span_unfold Let_def fst_run_serializer events_run_serializer
        client_run_serializer is_StartSpan_simps client_run_request_hook client_startSpan
      split: completion.split option.split)

lemma active_span_start_command_span:
  "active_span (snd (start_command_span E instr cfg mv r w)) = active_span w"
  by (simp add: start_command_span_unfold Let_def active_span_run_serializer
        active_span_run_request_hook active_span_startSpan
      split: completion.split)

subsection \<open>Counting the closures of a span\<close>








subsection \<open>The order of closing and calling back\<close>







subsection \<open>A command settled with the defaults and no hook\<close>







subsection \<open>The statement attributes\<close>

lemma get_prop_getClientAttributes_other:
  "k \<notin> set legacy_keys \<Longrightarrow> k \<notin> set stable_keys \<Longrightarrow> get_prop (getClientAttributes h p m) k = None"
  by (simp add: get_prop_None_iff keys_getClientAttributes)

lemma get_prop_command_attributes_statement:
  "get_prop (command_attributes m h p nm) ATTR_DB_STATEMENT = None"
  "get_prop (command_attributes m h p nm) ATTR_DB_QUERY_TEXT = None"
proof -
  have a: "get_prop (getClientAttributes h p m) ATTR_DB_STATEMENT = None"
    by (rule get_prop_getClientAttributes_other)
       (simp_all add: legacy_keys_def stable_keys_def attr_names)
  have b: "get_prop (getClientAttributes h p m) ATTR_DB_QUERY_TEXT = None"
    by (rule get_prop_getClientAttributes_other)
       (simp_all add: legacy_keys_def stable_keys_def attr_names)
  have c: "ATTR_DB_STATEMENT \<noteq> ATTR_DB_OPERATION_NAME" "ATTR_DB_QUERY_TEXT \<noteq> ATTR_DB_OPERATION_NAME"
    by (simp_all add: attr_names)
  show "get_prop (command_attributes m h p nm) ATTR_DB_STATEMENT = None"
    by (simp add: command_attributes_def Let_def get_prop_set_prop a c)
  show "get_prop (command_attributes m h p nm) ATTR_DB_QUERY_TEXT = None"
    by (simp add: command_attributes_def Let_def get_prop_set_prop b c)
qed

lemma get_prop_add_statement:
  "get_prop (add_statement m stmt a) ATTR_DB_STATEMENT =
     (if flag_set m OLD \<and> stmt \<noteq> JNull \<and> stmt \<noteq> JUndefined then Some stmt
      else get_prop a ATTR_DB_STATEMENT)"
  "get_prop (add_statement m stmt a) ATTR_DB_QUERY_TEXT =
     (if flag_set m STABLE \<and> stmt \<noteq> JNull \<and> stmt \<noteq> JUndefined then Some stmt
      else get_prop a ATTR_DB_QUERY_TEXT)"
proof -
  have c: "ATTR_DB_STATEMENT \<noteq> ATTR_DB_QUERY_TEXT" "ATTR_DB_QUERY_TEXT \<noteq> ATTR_DB_STATEMENT"
    by (simp_all add: attr_names)
  show "get_prop (add_statement m stmt a) ATTR_DB_STATEMENT =
     (if flag_set m OLD \<and> stmt \<noteq> JNull \<and> stmt \<noteq> JUndefined then Some stmt
      else get_prop a ATTR_DB_STATEMENT)"
    by (simp add: add_statement_def Let_def get_prop_set_prop c)
  show "get_prop (add_statement m stmt a) ATTR_DB_QUERY_TEXT =
     (if flag_set m STABLE \<and> stmt \<noteq> JNull \<and> stmt \<noteq> JUndefined then Some stmt
      else get_prop a ATTR_DB_QUERY_TEXT)"
    by (simp add: add_statement_def Let_def get_prop_set_prop c)
qed

text \<open>The spans a traced command starts: one, with the attributes assembled for it.\<close>

lemma starts_closing_calls: "filter is_StartSpan (closing_calls s err) = []"
  by (simp add: closing_calls_def is_StartSpan_simps split: option.split)

lemma starts_traceSendCommand:
  fixes E instr original mv r rest w
  defines "cfg \<equiv> getConfig instr"
  defines "c \<equiv> commands (client w) r"
  defines "c1 \<equiv> snd (the_serializer E (dbStatementSerializer cfg) (name c) (args c) (client w))"
  assumes traced: "\<not> (requireParentSpan cfg = Some (JBool True) \<and> active_span w = None)"
    and ser: "fst (the_serializer E (dbStatementSerializer cfg) (name c) (args c) (client w))
                = Return stmt"
  shows "filter is_StartSpan
           (new_events w (snd (traceSendCommand E instr original mv (JObj r # rest) w))) =
         [StartSpan (length (filter is_StartSpan (events w))) (name (commands c1 r)) CLIENT
            (add_statement (semconvStability instr) stmt
               (command_attributes (semconvStability instr)
                  (options_host (client w)) (options_port (client w)) (name c)))]"
proof -
  let ?s = "length (filter is_StartSpan (events w))"
  let ?w1 = "snd (start_command_span E instr cfg mv r w)"
  let ?w' = "snd (traceSendCommand E instr original mv (JObj r # rest) w)"
  let ?st = "StartSpan ?s (name (commands c1 r)) CLIENT
            (add_statement (semconvStability instr) stmt
               (command_attributes (semconvStability instr)
                  (options_host (client w)) (options_port (client w)) (name c)))"
  note ser' = ser [unfolded c_def]
  have opened: "fst (start_command_span E instr cfg mv r w) = Return ?s"
    by (rule start_command_span_returned(1) [OF ser'])
  have e1: "events ?w1 = events w @
      ([CallSerializer (dbStatementSerializer cfg) (name c) (args c), ?st]
       @ request_hook_calls E cfg mv ?s r c1)"
    unfolding c_def c1_def by (rule start_command_span_returned(2) [OF ser'])
  have "\<exists>X. events ?w' = events ?w1 @ X \<and> filter is_StartSpan X = []"
  proof (cases "fst (original (JObj r # rest) (client ?w1))")
    case (Return v)
    have "events ?w' = events ?w1 @ [CallOriginal (JObj r # rest)]"
      unfolding cfg_def
      by (rule traceSendCommand_returned(2) [where original = original and rest = rest,
            OF traced [unfolded cfg_def] opened [unfolded cfg_def] Return [unfolded cfg_def]])
    then show ?thesis by (simp add: is_StartSpan_simps)
  next
    case (Throw e)
    have "events ?w' = events ?w1 @ (CallOriginal (JObj r # rest) # closing_calls ?s (Some e))"
      unfolding cfg_def
      by (rule traceSendCommand_thrown(2) [where original = original and rest = rest,
            OF traced [unfolded cfg_def] opened [unfolded cfg_def] Throw [unfolded cfg_def]])
    then show ?thesis by (simp add: is_StartSpan_simps starts_closing_calls)
  qed
  then obtain X where X: "events ?w' = events ?w1 @ X" "filter is_StartSpan X = []"
    by blast
  have "events ?w' = events w @
      (([CallSerializer (dbStatementSerializer cfg) (name c) (args c), ?st]
       @ request_hook_calls E cfg mv ?s r c1) @ X)"
    unfolding X(1) e1 by simp
  from new_events_append [OF this] show ?thesis
    by (simp add: X(2) starts_request_hook_calls is_StartSpan_simps)
qed

lemma dual_instr_config:
  "getConfig dual_instr =
     \<lparr>dbStatementSerializer = None, requestHook = Some 1, responseHook = Some 2,
      requireParentSpan = Some (JBool True)\<rparr>"
  "semconvStability dual_instr = DUPLICATE"
  by (simp_all add: dual_instr_def demo_setConfig)

lemma null_serializer_instr_config:
  "getConfig null_serializer_instr =
     \<lparr>dbStatementSerializer = Some 3, requestHook = None, responseHook = None,
      requireParentSpan = Some (JBool True)\<rparr>"
  "semconvStability null_serializer_instr = DUPLICATE"
  by (simp_all add: null_serializer_instr_def setConfig_def spread_def DEFAULT_CONFIG_def)

subsection \<open>The merge with the defaults\<close>

lemma requireParentSpan_setConfig:
  "requireParentSpan (getConfig (setConfig cfg mode)) =
     (case requireParentSpan cfg of Some v \<Rightarrow> Some v | None \<Rightarrow> Some (JBool True))"
  by (simp add: setConfig_def spread_def DEFAULT_CONFIG_def split: option.split)

lemma starts_traceConnection:
  assumes "\<not> (requireParentSpan (getConfig instr) = Some (JBool True) \<and> active_span w = None)"
  shows "filter is_StartSpan (new_events w (snd (traceConnection instr original as w))) =
     [StartSpan (length (filter is_StartSpan (events w))) ''connect'' CLIENT
        (connect_attributes (semconvStability instr)
           (options_host (client w)) (options_port (client w)))]"
  unfolding new_events_append [OF traceConnection_opened(2) [OF assms]]
  by (simp add: is_StartSpan_simps starts_closing_calls)

subsection \<open>Hooks that throw and hooks that do not\<close>

lemma silence_simps: "fst (silence f c) = Return ()" "snd (silence f c) = snd (f c)"
  by (simp_all add: silence_def)

lemma silence_hooks_simps:
  "the_serializer (silence_hooks E) = the_serializer E"
  "resolvers (silence_hooks E) = resolvers E"
  "rejecters (silence_hooks E) = rejecters E"
  "requestHooks (silence_hooks E) h s i = silence (requestHooks E h s i)"
  "responseHooks (silence_hooks E) h s nm as v = silence (responseHooks E h s nm as v)"
  by (simp_all add: silence_hooks_def the_serializer_def fun_eq_iff split: option.split)

lemma without_diag_append: "without_diag (xs @ ys) = without_diag xs @ without_diag ys"
  by (simp add: without_diag_def)

lemma starts_without_diag: "filter is_StartSpan (without_diag evs) = filter is_StartSpan evs"
proof -
  have "(\<not> is_DiagError x \<and> is_StartSpan x) = is_StartSpan x" for x
    by (cases x) (simp_all add: is_DiagError_def is_StartSpan_def)
  then show ?thesis by (simp add: without_diag_def)
qed

lemma same_but_diag_refl: "same_but_diag w w"
  by (simp add: same_but_diag_def)

lemma same_but_diag_starts:
  assumes "same_but_diag u u'"
  shows "filter is_StartSpan (events u) = filter is_StartSpan (events u')"
  using assms starts_without_diag [of "events u"] starts_without_diag [of "events u'"]
  by (simp add: same_but_diag_def)

lemma same_but_diag_extend:
  assumes "same_but_diag u u'" and "client a = client b" and "active_span a = active_span u"
    and "active_span b = active_span u'" and "events a = events u @ X" and "events b = events u' @ Y"
    and "without_diag X = without_diag Y"
  shows "same_but_diag a b"
  using assms by (simp add: same_but_diag_def without_diag_append)

lemma without_diag_request_hook_calls:
  "without_diag (request_hook_calls (silence_hooks E) cfg mv s r c) =
   without_diag (request_hook_calls E cfg mv s r c)"
  by (simp add: request_hook_calls_def Let_def without_diag_def is_DiagError_def
        silence_hooks_simps silence_simps split: option.split completion.split)

lemma without_diag_response_hook_calls:
  "without_diag (response_hook_calls (silence_hooks E) cfg s r v c) =
   without_diag (response_hook_calls E cfg s r v c)"
  by (simp add: response_hook_calls_def without_diag_def is_DiagError_def
        silence_hooks_simps silence_simps split: option.split completion.split)

lemma sim_call_fn:
  assumes "same_but_diag u u'"
  shows "fst (call_fn e f u) = fst (call_fn e f u')"
    and "same_but_diag (snd (call_fn e f u)) (snd (call_fn e f u'))"
  using assms
  by (simp_all add: same_but_diag_def world_simps without_diag_append)

lemma sim_endSpan:
  assumes "same_but_diag u u'"
  shows "same_but_diag (endSpan s err u) (endSpan s err u')"
  using assms
  by (simp add: same_but_diag_def world_simps without_diag_append)

lemma sim_startSpan:
  assumes "same_but_diag u u'"
  shows "fst (startSpan nm k a u) = fst (startSpan nm k a u')"
    and "same_but_diag (snd (startSpan nm k a u)) (snd (startSpan nm k a u'))"
  using assms same_but_diag_starts [OF assms]
  by (simp_all add: same_but_diag_def world_simps without_diag_append)

lemma sim_run_request_hook:
  assumes "same_but_diag u u'"
  shows "same_but_diag (snd (run_request_hook E cfg mv s r u))
           (snd (run_request_hook (silence_hooks E) cfg mv s r u'))"
proof (rule same_but_diag_extend [OF assms])
  have c: "client u = client u'"
    using assms by (simp add: same_but_diag_def)
  show "client (snd (run_request_hook E cfg mv s r u)) =
        client (snd (run_request_hook (silence_hooks E) cfg mv s r u'))"
    by (simp add: client_run_request_hook c silence_hooks_simps silence_simps split: option.split)
  show "events (snd (run_request_hook E cfg mv s r u)) =
          events u @ request_hook_calls E cfg mv s r (client u)"
    by (rule events_run_request_hook)
  show "events (snd (run_request_hook (silence_hooks E) cfg mv s r u')) =
          events u' @ request_hook_calls (silence_hooks E) cfg mv s r (client u)"
    unfolding c by (rule events_run_request_hook)
  show "without_diag (request_hook_calls E cfg mv s r (client u)) =
        without_diag (request_hook_calls (silence_hooks E) cfg mv s r (client u))"
    by (simp add: without_diag_request_hook_calls)
qed (simp_all add: active_span_run_request_hook)

lemma sim_run_response_hook:
  assumes "same_but_diag u u'"
  shows "same_but_diag (snd (run_response_hook E cfg s r v u))
           (snd (run_response_hook (silence_hooks E) cfg s r v u'))"
proof (rule same_but_diag_extend [OF assms])
  have c: "client u = client u'"
    using assms by (simp add: same_but_diag_def)
  show "client (snd (run_response_hook E cfg s r v u)) =
        client (snd (run_response_hook (silence_hooks E) cfg s r v u'))"
    by (simp add: client_run_response_hook c silence_hooks_simps silence_simps split: option.split)
  show "events (snd (run_response_hook E cfg s r v u)) =
          events u @ response_hook_calls E cfg s r v (client u)"
    by (rule events_run_response_hook)
  show "events (snd (run_response_hook (silence_hooks E) cfg s r v u')) =
          events u' @ response_hook_calls (silence_hooks E) cfg s r v (client u)"
    unfolding c by (rule events_run_response_hook)
  show "without_diag (response_hook_calls E cfg s r v (client u)) =
        without_diag (response_hook_calls (silence_hooks E) cfg s r v (client u))"
    by (simp add: without_diag_response_hook_calls)
qed (simp_all add: active_span_run_response_hook)

lemma sim_call_resolve:
  assumes "same_but_diag u u'"
  shows "fst (call_resolve E f v u) = fst (call_resolve (silence_hooks E) f v u')
       \<and> same_but_diag (snd (call_resolve E f v u)) (snd (call_resolve (silence_hooks E) f v u'))"
  using assms
proof (induction f arbitrary: u u')
  case (NativeResolve k)
  then show ?case
    by (simp add: silence_hooks_simps sim_call_fn)
next
  case (TracedResolve cfg s r f)
  have "same_but_diag (endSpan s None (snd (run_response_hook E cfg s r v u)))
          (endSpan s None (snd (run_response_hook (silence_hooks E) cfg s r v u')))"
    by (intro sim_endSpan sim_run_response_hook TracedResolve.prems)
  from TracedResolve.IH [OF this] show ?case
    unfolding call_resolve_traced .
qed

lemma sim_call_reject:
  assumes "same_but_diag u u'"
  shows "fst (call_reject E f e u) = fst (call_reject (silence_hooks E) f e u')
       \<and> same_but_diag (snd (call_reject E f e u)) (snd (call_reject (silence_hooks E) f e u'))"
  using assms
proof (induction f arbitrary: u u')
  case (NativeReject k)
  then show ?case
    by (simp add: silence_hooks_simps sim_call_fn)
next
  case (TracedReject s f)
  have "same_but_diag (endSpan s (Some e) u) (endSpan s (Some e) u')"
    by (intro sim_endSpan TracedReject.prems)
  from TracedReject.IH [OF this] show ?case
    unfolding call_reject_traced .
qed

lemma sim_settle:
  assumes "same_but_diag u u'"
  shows "fst (settle E r st u) = fst (settle (silence_hooks E) r st u')
       \<and> same_but_diag (snd (settle E r st u)) (snd (settle (silence_hooks E) r st u'))"
proof -
  have c: "client u = client u'"
    using assms by (simp add: same_but_diag_def)
  show ?thesis
    unfolding settle_def c
    by (cases st) (simp_all add: sim_call_resolve [OF assms] sim_call_reject [OF assms])
qed

lemma sim_run_serializer:
  assumes "same_but_diag u u'"
  shows "fst (run_serializer E f nm as u) = fst (run_serializer (silence_hooks E) f nm as u')"
    and "same_but_diag (snd (run_serializer E f nm as u))
           (snd (run_serializer (silence_hooks E) f nm as u'))"
  by (simp_all add: run_serializer_def silence_hooks_simps sim_call_fn [OF assms])

lemma sim_start_command_span:
  assumes "same_but_diag u u'"
  shows "fst (start_command_span E instr cfg mv r u) =
         fst (start_command_span (silence_hooks E) instr cfg mv r u')
       \<and> same_but_diag (snd (start_command_span E instr cfg mv r u))
           (snd (start_command_span (silence_hooks E) instr cfg mv r u'))"
proof -
  have c: "client u = client u'"
    using assms by (simp add: same_but_diag_def)
  let ?nm = "name (commands (client u') r)" and ?as = "args (commands (client u') r)"
  let ?f = "dbStatementSerializer cfg"
  let ?w1 = "snd (run_serializer E ?f ?nm ?as u)"
  let ?w1' = "snd (run_serializer (silence_hooks E) ?f ?nm ?as u')"
  have f: "fst (run_serializer E ?f ?nm ?as u) = fst (run_serializer (silence_hooks E) ?f ?nm ?as u')"
    by (rule sim_run_serializer(1) [OF assms])
  have s1: "same_but_diag ?w1 ?w1'"
    by (rule sim_run_serializer(2) [OF assms])
  have c1: "client ?w1 = client ?w1'"
    using s1 by (simp add: same_but_diag_def)
  have n: "length (filter is_StartSpan (events ?w1)) = length (filter is_StartSpan (events ?w1'))"
    using same_but_diag_starts [OF s1] by simp
  show ?thesis
  proof (cases "fst (run_serializer (silence_hooks E) ?f ?nm ?as u')")
    case (Throw e)
    then show ?thesis
      using s1 f by (simp add: start_command_span_unfold Let_def c)
  next
    case (Return stmt)
    have "same_but_diag
            (snd (run_request_hook E cfg mv (length (filter is_StartSpan (events ?w1'))) r
                    (snd (startSpan nm' CLIENT a ?w1))))
            (snd (run_request_hook (silence_hooks E) cfg mv
                    (length (filter is_StartSpan (events ?w1'))) r
                    (snd (startSpan nm' CLIENT a ?w1'))))" for nm' a
      by (intro sim_run_request_hook sim_startSpan(2) s1)
    then show ?thesis
      using Return f by (simp add: start_command_span_unfold Let_def c c1 n)
  qed
qed

lemma sim_dispatch_traced:
  assumes "same_but_diag u u'"
  shows "fst (dispatch_traced cfg original as r s u) = fst (dispatch_traced cfg original as r s u')
       \<and> same_but_diag (snd (dispatch_traced cfg original as r s u))
           (snd (dispatch_traced cfg original as r s u'))"
proof -
  have c: "client u = client u'"
    using assms by (simp add: same_but_diag_def)
  show ?thesis
  proof (cases "fst (original as (client u'))")
    case (Return v)
    note a = dispatch_traced_returned [of original as u' v, OF Return]
    note b = dispatch_traced_returned [of original as u v, OF Return [folded c]]
    have "same_but_diag (snd (dispatch_traced cfg original as r s u))
           (snd (dispatch_traced cfg original as r s u'))"
      by (rule same_but_diag_extend [OF assms _ b(4) a(4) b(2) a(2)]) (simp_all add: a(3) b(3) c)
    then show ?thesis by (simp add: a(1) b(1))
  next
    case (Throw e)
    note a = dispatch_traced_thrown [of original as u' e, OF Throw]
    note b = dispatch_traced_thrown [of original as u e, OF Throw [folded c]]
    have "same_but_diag (snd (dispatch_traced cfg original as r s u))
           (snd (dispatch_traced cfg original as r s u'))"
      by (rule same_but_diag_extend [OF assms _ b(4) a(4) b(2) a(2)]) (simp_all add: a(3) b(3) c)
    then show ?thesis by (simp add: a(1) b(1))
  qed
qed

lemma sim_traceSendCommand:
  "fst (traceSendCommand E instr original mv as w) =
   fst (traceSendCommand (silence_hooks E) instr original mv as w)
   \<and> same_but_diag (snd (traceSendCommand E instr original mv as w))
       (snd (traceSendCommand (silence_hooks E) instr original mv as w))"
proof (cases "as = [] \<or> typeof (hd as) \<noteq> ''object''
              \<or> (requireParentSpan (getConfig instr) = Some (JBool True) \<and> active_span w = None)")
  case True
  then have "traceSendCommand E' instr original mv as w = apply_original original as w" for E'
    by (cases as) (auto simp: traceSendCommand_def Let_def)
  then show ?thesis by (simp add: same_but_diag_refl)
next
  case False
  then have traced: "\<not> (requireParentSpan (getConfig instr) = Some (JBool True) \<and> active_span w = None)"
    by simp
  from False obtain cmd rest where as: "as = cmd # rest" and ob: "typeof cmd = ''object''"
    by (cases as) auto
  show ?thesis
  proof (cases cmd)
    case JNull
    show ?thesis
      unfolding as JNull traceSendCommand_null [OF traced] by (simp add: same_but_diag_refl)
  next
    case (JObj r)
    let ?A = "start_command_span E instr (getConfig instr) mv r w"
    let ?B = "start_command_span (silence_hooks E) instr (getConfig instr) mv r w"
    note S = sim_start_command_span [OF same_but_diag_refl, of E instr "getConfig instr" mv r w]
    show ?thesis
    proof (cases "fst ?A")
      case (Throw e)
      have B: "fst ?B = Throw e" using S Throw by simp
      show ?thesis
        unfolding as JObj
          traceSendCommand_serializer_thrown [where original = original, OF traced Throw]
          traceSendCommand_serializer_thrown [where original = original, OF traced B]
        using S by simp
    next
      case (Return s)
      have B: "fst ?B = Return s" using S Return by simp
      show ?thesis
        unfolding as JObj
          traceSendCommand_opened [where original = original, OF traced Return]
          traceSendCommand_opened [where original = original, OF traced B]
        by (rule sim_dispatch_traced) (use S in simp)
    qed
  qed (use ob in simp_all)
qed

subsection \<open>From the dispatch to the settlement\<close>


subsection \<open>The run of an original\<close>







subsection \<open>Closures capture started spans only\<close>




lemma env_keeps_hooks:
  assumes "env_keeps E" and "bounded m c"
  shows "bounded m (snd (requestHooks E h s i c))"
    and "bounded m (snd (responseHooks E h s nm as v c))"
    and "bounded m (snd (resolvers E k v c))"
    and "bounded m (snd (rejecters E k e c))"
  using assms by (auto simp: env_keeps_def keeps_def)


lemma bounded_run_request_hook:
  assumes "env_keeps E" and "bounded m (client u)"
  shows "bounded m (client (snd (run_request_hook E cfg mv s r u)))"
  using assms
  by (simp add: client_run_request_hook env_keeps_hooks split: option.split)








subsection \<open>The wrappers around an original that calls back\<close>








subsection \<open>Counting the closures around an original that calls back\<close>






subsection \<open>The concrete client and an original that calls back\<close>




lemma orig_rejects_at_once_keeps: "run_keeps (orig_rejects_at_once as)"
  by (simp add: orig_rejects_at_once_def)




subsection \<open>A serializer that throws\<close>





section \<open>The claims\<close>

subsection \<open>C1\<close>




subsection \<open>C2\<close>




subsection \<open>C3\<close>

text \<open>
  Claim C3, as amended. Called with no argument, or with a first argument whose
  \<open>typeof\<close> is not \<open>"object"\<close> (\<open>undefined\<close>, a boolean, a number, a string), the
  command wrapper is the original called with the same arguments: same outcome, same
  state of the client, and no call but the original's, so no span is started.
\<close>

theorem non_object_argument_bypass:
  assumes "as = [] \<or> typeof (hd as) \<noteq> ''object''"
  shows "traceSendCommand E instr original mv as w = apply_original original as w
       \<and> fst (traceSendCommand E instr original mv as w) = fst (original as (client w))
       \<and> client (snd (traceSendCommand E instr original mv as w)) = snd (original as (client w))
       \<and> new_events w (snd (traceSendCommand E instr original mv as w)) = [CallOriginal as]"
proof -
  have "traceSendCommand E instr original mv as w = apply_original original as w"
    using assms
    by (cases as) (simp_all add: traceSendCommand_no_argument traceSendCommand_not_object)
  then show ?thesis
    by (simp add: fst_apply_original client_apply_original new_events_apply_original)
qed

theorem non_object_argument_bypass_witness:
  "typeof (hd [JStr ''get'']) \<noteq> ''object''
   \<and> traceSendCommand demo_env (setConfig demo_config OLD) orig_ok None [JStr ''get''] demo_world
       = (Return (JStr ''OK''), demo_world\<lparr>events := [CallOriginal [JStr ''get'']]\<rparr>)"
proof -
  have a: "[JStr ''get''] = [] \<or> typeof (hd [JStr ''get'']) \<noteq> ''object''"
    by simp
  have c: "apply_original orig_ok as demo_world
           = (Return (JStr ''OK''), demo_world\<lparr>events := [CallOriginal as]\<rparr>)" for as
    by (simp add: apply_original_def call_fn_def emit_def orig_ok_def demo_world_def)
  show ?thesis
    using non_object_argument_bypass [OF a, of demo_env "setConfig demo_config OLD" orig_ok None demo_world]
    by (simp add: c)
qed

text \<open>
  The claim as stated counts \<open>null\<close> among the arguments that are not objects. But
  \<open>typeof null\<close> is \<open>"object"\<close>, so \<open>null\<close> passes the first guard; with a span active
  in the ambient context the wrapper then reads \<open>cmd.name\<close> and throws, and the original,
  which would have returned \<open>"OK"\<close>, is never called.
\<close>

theorem null_argument_not_bypassed:
  "typeof JNull = ''object''
   \<and> traceSendCommand demo_env (setConfig demo_config OLD) orig_ok None [JNull] demo_world
       = (Throw null_property_error, demo_world)
   \<and> apply_original orig_ok [JNull] demo_world
       = (Return (JStr ''OK''), demo_world\<lparr>events := [CallOriginal [JNull]]\<rparr>)
   \<and> traceSendCommand demo_env (setConfig demo_config OLD) orig_ok None [JNull] demo_world
       \<noteq> apply_original orig_ok [JNull] demo_world"
proof -
  have n: "\<not> (requireParentSpan (getConfig (setConfig demo_config OLD)) = Some (JBool True)
              \<and> active_span demo_world = None)"
    by (simp add: demo_world_def)
  have c: "apply_original orig_ok [JNull] demo_world
           = (Return (JStr ''OK''), demo_world\<lparr>events := [CallOriginal [JNull]]\<rparr>)"
    by (simp add: apply_original_def call_fn_def emit_def orig_ok_def demo_world_def)
  show ?thesis
    by (simp add: traceSendCommand_null [OF n] c)
qed

subsection \<open>C4\<close>

text \<open>
  Claim C4. For every convention mode, the attribute map built by
  \<open>getClientAttributes\<close> has each legacy key (\<open>db.system\<close>, \<open>net.peer.name\<close>,
  \<open>net.peer.port\<close>, \<open>db.connection_string\<close>) exactly when the \<open>OLD\<close> flag is set
  and each new key (\<open>db.system.name\<close>, \<open>server.address\<close>, \<open>server.port\<close>) exactly
  when the \<open>STABLE\<close> flag is set, and no other key; the two groups of keys are
  disjoint; the legacy values are \<open>"redis"\<close>, the host, the port and
  \<open>redis://{host}:{port}\<close>, the new ones \<open>"redis"\<close>, the host and the port. The result
  is a function of the three arguments alone.
\<close>

theorem getClientAttributes_by_mode:
  fixes host port mode
  defines "A \<equiv> getClientAttributes host port mode"
  shows "(\<forall>k \<in> set legacy_keys. k \<in> keys A \<longleftrightarrow> flag_set mode OLD)
       \<and> (\<forall>k \<in> set stable_keys. k \<in> keys A \<longleftrightarrow> flag_set mode STABLE)
       \<and> keys A \<subseteq> set legacy_keys \<union> set stable_keys
       \<and> set legacy_keys \<inter> set stable_keys = {}
       \<and> (flag_set mode OLD \<longrightarrow>
            get_prop A ATTR_DB_SYSTEM = Some (JStr ''redis'')
          \<and> get_prop A ATTR_NET_PEER_NAME = Some (opt_str host)
          \<and> get_prop A ATTR_NET_PEER_PORT = Some (opt_num port)
          \<and> get_prop A ATTR_DB_CONNECTION_STRING =
              Some (JStr (''redis://'' @ template_str (opt_str host) @ '':''
                          @ template_str (opt_num port))))
       \<and> (flag_set mode STABLE \<longrightarrow>
            get_prop A ATTR_DB_SYSTEM_NAME = Some (JStr ''redis'')
          \<and> get_prop A ATTR_SERVER_ADDRESS = Some (opt_str host)
          \<and> get_prop A ATTR_SERVER_PORT = Some (opt_num port))"
proof -
  have disj: "set legacy_keys \<inter> set stable_keys = {}"
    by (rule legacy_stable_disjoint)
  have k: "keys A = (if flag_set mode OLD then set legacy_keys else {})
                  \<union> (if flag_set mode STABLE then set stable_keys else {})"
    unfolding A_def by (rule keys_getClientAttributes)
  have 1: "\<forall>k \<in> set legacy_keys. k \<in> keys A \<longleftrightarrow> flag_set mode OLD"
    using disj by (auto simp: k)
  have 2: "\<forall>k \<in> set stable_keys. k \<in> keys A \<longleftrightarrow> flag_set mode STABLE"
    using disj by (auto simp: k)
  have 3: "keys A \<subseteq> set legacy_keys \<union> set stable_keys"
    by (auto simp: k)
  have 4: "flag_set mode OLD \<longrightarrow>
            get_prop A ATTR_DB_SYSTEM = Some (JStr ''redis'')
          \<and> get_prop A ATTR_NET_PEER_NAME = Some (opt_str host)
          \<and> get_prop A ATTR_NET_PEER_PORT = Some (opt_num port)
          \<and> get_prop A ATTR_DB_CONNECTION_STRING =
              Some (JStr (''redis://'' @ template_str (opt_str host) @ '':''
                          @ template_str (opt_num port)))"
    unfolding A_def getClientAttributes_eq
    by (simp add: get_prop_def attr_names DB_SYSTEM_VALUE_REDIS_def)
  have 5: "flag_set mode STABLE \<longrightarrow>
            get_prop A ATTR_DB_SYSTEM_NAME = Some (JStr ''redis'')
          \<and> get_prop A ATTR_SERVER_ADDRESS = Some (opt_str host)
          \<and> get_prop A ATTR_SERVER_PORT = Some (opt_num port)"
    unfolding A_def getClientAttributes_eq
    by (simp add: get_prop_def attr_names DB_SYSTEM_NAME_VALUE_REDIS_def)
  from 1 2 3 disj 4 5 show ?thesis by blast
qed

theorem getClientAttributes_by_mode_witness:
  "flag_set DUPLICATE OLD \<and> flag_set DUPLICATE STABLE
   \<and> ATTR_DB_SYSTEM \<in> set legacy_keys \<and> ATTR_SERVER_ADDRESS \<in> set stable_keys
   \<and> ATTR_DB_SYSTEM \<in> keys (getClientAttributes (Some ''localhost'') (Some 6379) DUPLICATE)
   \<and> ATTR_SERVER_ADDRESS \<in> keys (getClientAttributes (Some ''localhost'') (Some 6379) DUPLICATE)
   \<and> get_prop (getClientAttributes (Some ''localhost'') (Some 6379) DUPLICATE)
        ATTR_DB_CONNECTION_STRING = Some (JStr ''redis://localhost:6379'')
   \<and> get_prop (getClientAttributes (Some ''localhost'') (Some 6379) DUPLICATE)
        ATTR_SERVER_PORT = Some (JNum 6379)"
proof -
  note T = getClientAttributes_by_mode [of "Some ''localhost''" "Some 6379" DUPLICATE]
  have d: "digits 6379 = ''6379''" by (simp add: digits.simps digit_def)
  have f: "flag_set DUPLICATE OLD" "flag_set DUPLICATE STABLE"
    by (rule flag_examples)+
  have m: "ATTR_DB_SYSTEM \<in> set legacy_keys" "ATTR_SERVER_ADDRESS \<in> set stable_keys"
    by (simp_all add: legacy_keys_def stable_keys_def)
  have k1: "ATTR_DB_SYSTEM \<in> keys (getClientAttributes (Some ''localhost'') (Some 6379) DUPLICATE)"
    using T f m by blast
  have k2: "ATTR_SERVER_ADDRESS \<in> keys (getClientAttributes (Some ''localhost'') (Some 6379) DUPLICATE)"
    using T f m by blast
  have c: "get_prop (getClientAttributes (Some ''localhost'') (Some 6379) DUPLICATE)
        ATTR_DB_CONNECTION_STRING = Some (JStr (''redis://'' @ template_str (opt_str (Some ''localhost'')) @ '':''
                          @ template_str (opt_num (Some 6379))))"
    using T f by blast
  have p: "get_prop (getClientAttributes (Some ''localhost'') (Some 6379) DUPLICATE)
        ATTR_SERVER_PORT = Some (opt_num (Some 6379))"
    using T f by blast
  have c': "''redis://'' @ template_str (opt_str (Some ''localhost'')) @ '':''
                          @ template_str (opt_num (Some 6379)) = ''redis://localhost:6379''"
    by (simp add: d)
  show ?thesis using f m k1 k2 c p unfolding c' by simp
qed

subsection \<open>C5\<close>




subsection \<open>C6\<close>

text \<open>
  Claim C6. While the configuration's \<open>requireParentSpan\<close> is \<open>true\<close> and no span is
  active in the ambient context, the command wrapper and the connect wrapper are the
  original called with the original arguments: they return (or throw) what it does,
  leave the client in the state it leaves it in, and the only call they add to the
  record is the call of the original, so no span is started.
\<close>

theorem requireParentSpan_bypass:
  assumes "requireParentSpan (getConfig instr) = Some (JBool True)" and "active_span w = None"
  shows "traceSendCommand E instr original mv as w = apply_original original as w
       \<and> traceConnection instr original as w = apply_original original as w
       \<and> fst (apply_original original as w) = fst (original as (client w))
       \<and> client (snd (apply_original original as w)) = snd (original as (client w))
       \<and> new_events w (snd (apply_original original as w)) = [CallOriginal as]"
  using assms
  by (simp add: traceSendCommand_no_parent traceConnection_no_parent fst_apply_original
        client_apply_original new_events_apply_original)

theorem requireParentSpan_bypass_witness:
  "requireParentSpan (getConfig (setConfig demo_config OLD)) = Some (JBool True)
   \<and> active_span orphan_world = None
   \<and> traceSendCommand demo_env (setConfig demo_config OLD) orig_ok None [JObj 0] orphan_world
       = (Return (JStr ''OK''), orphan_world\<lparr>events := [CallOriginal [JObj 0]]\<rparr>)
   \<and> traceConnection (setConfig demo_config OLD) orig_ok [] orphan_world
       = (Return (JStr ''OK''), orphan_world\<lparr>events := [CallOriginal []]\<rparr>)"
proof -
  have a: "requireParentSpan (getConfig (setConfig demo_config OLD)) = Some (JBool True)"
    by (simp add: demo_setConfig)
  have b: "active_span orphan_world = None"
    by (simp add: orphan_world_def)
  have c: "apply_original orig_ok as orphan_world
           = (Return (JStr ''OK''), orphan_world\<lparr>events := [CallOriginal as]\<rparr>)" for as
    by (simp add: apply_original_def call_fn_def emit_def orig_ok_def orphan_world_def)
  show ?thesis
    using requireParentSpan_bypass [OF a b, of demo_env orig_ok None "[JObj 0]"]
      requireParentSpan_bypass [OF a b, of demo_env orig_ok None "[]"] a b
    by (simp add: c)
qed

subsection \<open>C7\<close>

text \<open>
  Claim C7. A hook that throws is caught where it is called, reported on the
  diagnostic channel and is otherwise without effect. The call site of the request
  hook and that of the response hook always return; when the hook throws \<open>err\<close>, what
  the call site adds to the record is the hook's call followed by \<open>diag.error\<close> with
  \<open>err\<close>. A traced command, and the settlement of a command, have the same outcome,
  leave the client in the same state and make the same calls, the diagnostic channel
  apart, as with hooks that have the same effect but return instead of throwing: the
  span is started and closed, the original is dispatched and the callbacks are called
  all the same.
\<close>

theorem hook_failure_suppressed:
  fixes E :: "'c environment" and u w :: "'c world"
  defines "info \<equiv> \<lambda>mv r (u :: 'c world).
             \<lparr>moduleVersion = mv, cmdName = name (commands (client u) r),
              cmdArgs = args (commands (client u) r)\<rparr>"
  shows
    "fst (run_request_hook E cfg mv s r u) = Return ()
   \<and> (\<forall>h err. requestHook cfg = Some h
          \<and> fst (requestHooks E h s (info mv r u) (client u)) = Throw err \<longrightarrow>
        new_events u (snd (run_request_hook E cfg mv s r u)) =
          [CallRequestHook h s (info mv r u),
           DiagError ''ioredis instrumentation: request hook failed'' err])
   \<and> (\<exists>x. fst (run_response_hook E cfg s r v u) = Return x)
   \<and> (\<forall>h err. responseHook cfg = Some h
          \<and> fst (responseHooks E h s (name (commands (client u) r)) (args (commands (client u) r))
                   v (client u)) = Throw err \<longrightarrow>
        new_events u (snd (run_response_hook E cfg s r v u)) =
          [CallResponseHook h s (name (commands (client u) r)) (args (commands (client u) r)) v,
           DiagError ''ioredis instrumentation: response hook failed'' err])
   \<and> fst (traceSendCommand E instr original mv as w) =
       fst (traceSendCommand (silence_hooks E) instr original mv as w)
   \<and> same_but_diag (snd (traceSendCommand E instr original mv as w))
       (snd (traceSendCommand (silence_hooks E) instr original mv as w))
   \<and> fst (settle E r st u) = fst (settle (silence_hooks E) r st u)
   \<and> same_but_diag (snd (settle E r st u)) (snd (settle (silence_hooks E) r st u))"
proof -
  have A: "fst (run_request_hook E cfg mv s r u) = Return ()"
    by (rule fst_run_request_hook)
  have B: "new_events u (snd (run_request_hook E cfg mv s r u)) =
          [CallRequestHook h s (info mv r u),
           DiagError ''ioredis instrumentation: request hook failed'' err]"
    if "requestHook cfg = Some h \<and> fst (requestHooks E h s (info mv r u) (client u)) = Throw err"
    for h err
    unfolding new_events_append [OF events_run_request_hook]
    using that by (simp add: request_hook_calls_def info_def)
  have C: "\<exists>x. fst (run_response_hook E cfg s r v u) = Return x"
    by (rule fst_run_response_hook)
  have D: "new_events u (snd (run_response_hook E cfg s r v u)) =
          [CallResponseHook h s (name (commands (client u) r)) (args (commands (client u) r)) v,
           DiagError ''ioredis instrumentation: response hook failed'' err]"
    if "responseHook cfg = Some h
          \<and> fst (responseHooks E h s (name (commands (client u) r)) (args (commands (client u) r))
                   v (client u)) = Throw err"
    for h err
    unfolding new_events_append [OF events_run_response_hook]
    using that by (simp add: response_hook_calls_def)
  note F = sim_traceSendCommand [of E instr original mv as w]
  note G = sim_settle [OF same_but_diag_refl, of E r st u]
  from A B C D F G show ?thesis by blast
qed

theorem hook_failure_suppressed_witness:
  "requestHook (getConfig demo_instr) = Some 1
   \<and> fst (requestHooks demo_env 1 0
            \<lparr>moduleVersion = None, cmdName = ''get'', cmdArgs = [JStr ''foo'']\<rparr>
            (client demo_world)) = Throw (JsError ''request hook'')
   \<and> fst (run_request_hook demo_env (getConfig demo_instr) None 0 0 demo_world) = Return ()
   \<and> new_events demo_world (snd (run_request_hook demo_env (getConfig demo_instr) None 0 0 demo_world))
       = [CallRequestHook 1 0 \<lparr>moduleVersion = None, cmdName = ''get'', cmdArgs = [JStr ''foo'']\<rparr>,
          DiagError ''ioredis instrumentation: request hook failed'' (JsError ''request hook'')]
   \<and> responseHook (getConfig demo_instr) = Some 2
   \<and> fst (responseHooks demo_env 2 0 ''get'' [JStr ''foo''] (JStr ''bar'') (client demo_world))
       = Throw (JsError ''response hook'')
   \<and> new_events demo_world
        (snd (run_response_hook demo_env (getConfig demo_instr) 0 0 (JStr ''bar'') demo_world))
       = [CallResponseHook 2 0 ''get'' [JStr ''foo''] (JStr ''bar''),
          DiagError ''ioredis instrumentation: response hook failed'' (JsError ''response hook'')]
   \<and> fst (traceSendCommand demo_env demo_instr orig_ok None [JObj 0] demo_world)
       = Return (JStr ''OK'')
   \<and> fst (traceSendCommand (silence_hooks demo_env) demo_instr orig_ok None [JObj 0] demo_world)
       = Return (JStr ''OK'')
   \<and> client (snd (traceSendCommand demo_env demo_instr orig_ok None [JObj 0] demo_world))
       = client (snd (traceSendCommand (silence_hooks demo_env) demo_instr orig_ok None [JObj 0]
                        demo_world))
   \<and> without_diag (events (snd (traceSendCommand demo_env demo_instr orig_ok None [JObj 0]
                                   demo_world)))
       = without_diag (events (snd (traceSendCommand (silence_hooks demo_env) demo_instr orig_ok
                                      None [JObj 0] demo_world)))"
proof -
  note T = hook_failure_suppressed
    [where E = demo_env and cfg = "getConfig demo_instr" and mv = None and s = 0 and r = 0
       and u = demo_world and v = "JStr ''bar''" and instr = demo_instr and original = orig_ok
       and as = "[JObj 0]" and w = demo_world and st = "Resolved (JStr ''bar'')"]
  have c: "name (commands (client demo_world) 0) = ''get''"
    "args (commands (client demo_world) 0) = [JStr ''foo'']"
    by (simp_all add: demo_world_def demo_client_def demo_command_def)
  have h1: "requestHook (getConfig demo_instr) = Some 1"
    and h2: "responseHook (getConfig demo_instr) = Some 2"
    by (simp_all add: demo_instr_config)
  have t1: "fst (requestHooks demo_env 1 0
            \<lparr>moduleVersion = None, cmdName = ''get'', cmdArgs = [JStr ''foo'']\<rparr>
            (client demo_world)) = Throw (JsError ''request hook'')"
    and t2: "fst (responseHooks demo_env 2 0 ''get'' [JStr ''foo''] (JStr ''bar'')
                    (client demo_world)) = Throw (JsError ''response hook'')"
    by (simp_all add: demo_env_def)
  have A: "fst (run_request_hook demo_env (getConfig demo_instr) None 0 0 demo_world) = Return ()"
    using T by simp
  have B: "new_events demo_world
             (snd (run_request_hook demo_env (getConfig demo_instr) None 0 0 demo_world))
       = [CallRequestHook 1 0 \<lparr>moduleVersion = None, cmdName = ''get'', cmdArgs = [JStr ''foo'']\<rparr>,
          DiagError ''ioredis instrumentation: request hook failed'' (JsError ''request hook'')]"
    using T h1 t1 by (simp add: c)
  have C: "new_events demo_world
        (snd (run_response_hook demo_env (getConfig demo_instr) 0 0 (JStr ''bar'') demo_world))
       = [CallResponseHook 2 0 ''get'' [JStr ''foo''] (JStr ''bar''),
          DiagError ''ioredis instrumentation: response hook failed'' (JsError ''response hook'')]"
    using T h2 t2 by (simp add: c)
  have D: "fst (traceSendCommand demo_env demo_instr orig_ok None [JObj 0] demo_world)
       = Return (JStr ''OK'')"
    by (rule traceSendCommand_returned(1) [where original = orig_ok and rest = "[]",
          OF demo_traced demo_opened orig_ok_returns])
  have F: "fst (traceSendCommand (silence_hooks demo_env) demo_instr orig_ok None [JObj 0] demo_world)
       = Return (JStr ''OK'')"
    using T D by simp
  have G: "same_but_diag (snd (traceSendCommand demo_env demo_instr orig_ok None [JObj 0] demo_world))
       (snd (traceSendCommand (silence_hooks demo_env) demo_instr orig_ok None [JObj 0]
               demo_world))"
    using T by simp
  from h1 t1 A B h2 t2 C D F G show ?thesis
    by (simp add: same_but_diag_def)
qed

subsection \<open>C8\<close>

text \<open>
  Claim C8. A traced command whose serializer (the configured one, or the default)
  returns \<open>stmt\<close> starts exactly one span, and the attributes of that span have the
  legacy statement key \<open>db.statement\<close> with value \<open>stmt\<close> exactly when \<open>OLD\<close> is set
  and \<open>stmt\<close> is neither \<open>null\<close> nor \<open>undefined\<close>, and the key \<open>db.query.text\<close> with
  value \<open>stmt\<close> exactly when \<open>STABLE\<close> is set and \<open>stmt\<close> is neither \<open>null\<close> nor
  \<open>undefined\<close>. In particular a serializer that returns \<open>null\<close> leaves both keys out
  in every mode.
\<close>

theorem statement_attached_when_serialized:
  fixes E :: "'c environment" and instr original mv r rest w stmt
  defines "cfg \<equiv> getConfig instr"
  defines "mode \<equiv> semconvStability instr"
  defines "c \<equiv> commands (client w) r"
  defines "c1 \<equiv> snd (the_serializer E (dbStatementSerializer cfg) (name c) (args c) (client w))"
  defines "attrs \<equiv> add_statement mode stmt
                     (command_attributes mode (options_host (client w)) (options_port (client w))
                        (name c))"
  assumes traced: "\<not> (requireParentSpan cfg = Some (JBool True) \<and> active_span w = None)"
    and ser: "fst (the_serializer E (dbStatementSerializer cfg) (name c) (args c) (client w))
                = Return stmt"
  shows
    "filter is_StartSpan
       (new_events w (snd (traceSendCommand E instr original mv (JObj r # rest) w))) =
       [StartSpan (length (filter is_StartSpan (events w))) (name (commands c1 r)) CLIENT attrs]
   \<and> get_prop attrs ATTR_DB_STATEMENT =
       (if flag_set mode OLD \<and> stmt \<noteq> JNull \<and> stmt \<noteq> JUndefined then Some stmt else None)
   \<and> get_prop attrs ATTR_DB_QUERY_TEXT =
       (if flag_set mode STABLE \<and> stmt \<noteq> JNull \<and> stmt \<noteq> JUndefined then Some stmt else None)"
proof -
  have A: "filter is_StartSpan
       (new_events w (snd (traceSendCommand E instr original mv (JObj r # rest) w))) =
       [StartSpan (length (filter is_StartSpan (events w))) (name (commands c1 r)) CLIENT attrs]"
    unfolding attrs_def mode_def c1_def c_def cfg_def
    by (rule starts_traceSendCommand [where original = original and rest = rest,
          OF traced [unfolded cfg_def] ser [unfolded c_def cfg_def]])
  have B: "get_prop attrs ATTR_DB_STATEMENT =
       (if flag_set mode OLD \<and> stmt \<noteq> JNull \<and> stmt \<noteq> JUndefined then Some stmt else None)"
    unfolding attrs_def
    by (simp only: get_prop_add_statement get_prop_command_attributes_statement)
  have C: "get_prop attrs ATTR_DB_QUERY_TEXT =
       (if flag_set mode STABLE \<and> stmt \<noteq> JNull \<and> stmt \<noteq> JUndefined then Some stmt else None)"
    unfolding attrs_def
    by (simp only: get_prop_add_statement get_prop_command_attributes_statement)
  from A B C show ?thesis by simp
qed

theorem statement_attached_when_serialized_witness:
  "\<not> (requireParentSpan (getConfig dual_instr) = Some (JBool True) \<and> active_span demo_world = None)
   \<and> fst (the_serializer demo_env (dbStatementSerializer (getConfig dual_instr))
            (name (commands (client demo_world) 0)) (args (commands (client demo_world) 0))
            (client demo_world)) = Return (JStr ''get'')
   \<and> get_prop (add_statement DUPLICATE (JStr ''get'')
                 (command_attributes DUPLICATE (Some ''localhost'') (Some 6379) ''get''))
        ATTR_DB_STATEMENT = Some (JStr ''get'')
   \<and> get_prop (add_statement DUPLICATE (JStr ''get'')
                 (command_attributes DUPLICATE (Some ''localhost'') (Some 6379) ''get''))
        ATTR_DB_QUERY_TEXT = Some (JStr ''get'')
   \<and> filter is_StartSpan
        (new_events demo_world
           (snd (traceSendCommand demo_env dual_instr orig_ok None [JObj 0] demo_world)))
       = [StartSpan 0 ''get'' CLIENT
            (add_statement DUPLICATE (JStr ''get'')
               (command_attributes DUPLICATE (Some ''localhost'') (Some 6379) ''get''))]
   \<and> \<not> (requireParentSpan (getConfig null_serializer_instr) = Some (JBool True)
          \<and> active_span demo_world = None)
   \<and> fst (the_serializer demo_env (dbStatementSerializer (getConfig null_serializer_instr))
            (name (commands (client demo_world) 0)) (args (commands (client demo_world) 0))
            (client demo_world)) = Return JNull
   \<and> get_prop (add_statement DUPLICATE JNull
                 (command_attributes DUPLICATE (Some ''localhost'') (Some 6379) ''get''))
        ATTR_DB_STATEMENT = None
   \<and> get_prop (add_statement DUPLICATE JNull
                 (command_attributes DUPLICATE (Some ''localhost'') (Some 6379) ''get''))
        ATTR_DB_QUERY_TEXT = None"
proof -
  have t1: "\<not> (requireParentSpan (getConfig dual_instr) = Some (JBool True)
               \<and> active_span demo_world = None)"
    and t2: "\<not> (requireParentSpan (getConfig null_serializer_instr) = Some (JBool True)
               \<and> active_span demo_world = None)"
    by (simp_all add: demo_world_def)
  have c: "name (commands (client demo_world) 0) = ''get''"
    "args (commands (client demo_world) 0) = [JStr ''foo'']"
    "options_host (client demo_world) = Some ''localhost''"
    "options_port (client demo_world) = Some 6379"
    "events demo_world = []"
    by (simp_all add: demo_world_def demo_client_def demo_command_def)
  have s1: "fst (the_serializer demo_env (dbStatementSerializer (getConfig dual_instr))
            (name (commands (client demo_world) 0)) (args (commands (client demo_world) 0))
            (client demo_world)) = Return (JStr ''get'')"
    by (simp add: dual_instr_config the_serializer_def demo_env_def c)
  have s2: "fst (the_serializer demo_env (dbStatementSerializer (getConfig null_serializer_instr))
            (name (commands (client demo_world) 0)) (args (commands (client demo_world) 0))
            (client demo_world)) = Return JNull"
    by (simp add: null_serializer_instr_config the_serializer_def demo_env_def c)
  have n: "name (commands (snd (the_serializer demo_env (dbStatementSerializer (getConfig dual_instr))
              ''get'' [JStr ''foo''] (client demo_world))) 0) = ''get''"
    by (simp add: dual_instr_config the_serializer_def demo_env_def demo_world_def demo_client_def
          demo_command_def)
  note T1 = statement_attached_when_serialized
    [where E = demo_env and instr = dual_instr and original = orig_ok and mv = None
       and r = 0 and rest = "[]" and w = demo_world, OF t1 s1]
  note T2 = statement_attached_when_serialized
    [where E = demo_env and instr = null_serializer_instr and original = orig_ok and mv = None
       and r = 0 and rest = "[]" and w = demo_world, OF t2 s2]
  show ?thesis
    using T1 T2 t1 t2 s1 s2
    by (simp add: c n dual_instr_config(2) null_serializer_instr_config(2) flag_examples)
qed

subsection \<open>C9\<close>

text \<open>
  Claim C9. The bypass for a missing parent span fires only for the value \<open>true\<close>. With
  any other value of \<open>requireParentSpan\<close> in the merged configuration, the connect
  wrapper starts its span whether or not a span is active in the ambient context, and
  so does the command wrapper for a command whose serializer returns. The merge with
  the defaults keeps a property the user's configuration has, whatever its value: an
  explicit \<open>undefined\<close> (or a truthy value that is not \<open>true\<close>) replaces the default
  \<open>true\<close>; only a configuration without the property gets the default.
\<close>

theorem bypass_only_when_strictly_true:
  fixes E :: "'c environment" and instr original mv r rest w as
  defines "cfg \<equiv> getConfig instr"
  defines "c \<equiv> commands (client w) r"
  defines "n \<equiv> length (filter is_StartSpan (events w))"
  assumes other: "requireParentSpan cfg \<noteq> Some (JBool True)"
  shows
    "filter is_StartSpan (new_events w (snd (traceConnection instr original as w))) =
       [StartSpan n ''connect'' CLIENT
          (connect_attributes (semconvStability instr)
             (options_host (client w)) (options_port (client w)))]
   \<and> (\<forall>stmt. fst (the_serializer E (dbStatementSerializer cfg) (name c) (args c) (client w))
                 = Return stmt \<longrightarrow>
          (\<exists>nm a. filter is_StartSpan
                     (new_events w (snd (traceSendCommand E instr original mv (JObj r # rest) w)))
                   = [StartSpan n nm CLIENT a]))
   \<and> requireParentSpan (getConfig (setConfig (user\<lparr>requireParentSpan := Some v\<rparr>) mode)) = Some v
   \<and> requireParentSpan (getConfig (setConfig (user\<lparr>requireParentSpan := None\<rparr>) mode))
       = Some (JBool True)"
proof -
  have traced: "\<not> (requireParentSpan (getConfig instr) = Some (JBool True) \<and> active_span w = None)"
    using other by (simp add: cfg_def)
  have A: "filter is_StartSpan (new_events w (snd (traceConnection instr original as w))) =
       [StartSpan n ''connect'' CLIENT
          (connect_attributes (semconvStability instr)
             (options_host (client w)) (options_port (client w)))]"
    unfolding n_def by (rule starts_traceConnection [OF traced])
  have B: "\<exists>nm a. filter is_StartSpan
                     (new_events w (snd (traceSendCommand E instr original mv (JObj r # rest) w)))
                   = [StartSpan n nm CLIENT a]"
    if "fst (the_serializer E (dbStatementSerializer cfg) (name c) (args c) (client w))
          = Return stmt" for stmt
    using starts_traceSendCommand [where original = original and rest = rest and mv = mv,
        OF traced that [unfolded c_def cfg_def]]
    by (simp add: n_def)
  have C: "requireParentSpan (getConfig (setConfig (user\<lparr>requireParentSpan := Some v\<rparr>) mode))
             = Some v"
    "requireParentSpan (getConfig (setConfig (user\<lparr>requireParentSpan := None\<rparr>) mode))
       = Some (JBool True)"
    by (simp_all add: requireParentSpan_setConfig)
  from A B C show ?thesis by blast
qed

theorem bypass_only_when_strictly_true_witness:
  "requireParentSpan (getConfig (setConfig (demo_config\<lparr>requireParentSpan := Some JUndefined\<rparr>) OLD))
     \<noteq> Some (JBool True)
   \<and> requireParentSpan (getConfig (setConfig (demo_config\<lparr>requireParentSpan := Some JUndefined\<rparr>) OLD))
       = Some JUndefined
   \<and> requireParentSpan (getConfig (setConfig (demo_config\<lparr>requireParentSpan := None\<rparr>) OLD))
       = Some (JBool True)
   \<and> active_span orphan_world = None
   \<and> filter is_StartSpan
        (new_events orphan_world
           (snd (traceConnection (setConfig (demo_config\<lparr>requireParentSpan := Some JUndefined\<rparr>) OLD)
                   orig_ok [] orphan_world)))
       = [StartSpan 0 ''connect'' CLIENT (connect_attributes OLD (Some ''localhost'') (Some 6379))]
   \<and> fst (the_serializer demo_env
            (dbStatementSerializer
               (getConfig (setConfig (demo_config\<lparr>requireParentSpan := Some JUndefined\<rparr>) OLD)))
            (name (commands (client orphan_world) 0)) (args (commands (client orphan_world) 0))
            (client orphan_world)) = Return (JStr ''get'')
   \<and> (\<exists>nm a. filter is_StartSpan
        (new_events orphan_world
           (snd (traceSendCommand demo_env
                   (setConfig (demo_config\<lparr>requireParentSpan := Some JUndefined\<rparr>) OLD)
                   orig_ok None [JObj 0] orphan_world)))
       = [StartSpan 0 nm CLIENT a])"
proof -
  let ?I = "setConfig (demo_config\<lparr>requireParentSpan := Some JUndefined\<rparr>) OLD"
  have o: "requireParentSpan (getConfig ?I) \<noteq> Some (JBool True)"
    by (simp add: requireParentSpan_setConfig)
  have c: "options_host (client orphan_world) = Some ''localhost''"
    "options_port (client orphan_world) = Some 6379"
    "events orphan_world = []" "active_span orphan_world = None"
    by (simp_all add: orphan_world_def demo_client_def)
  have s: "fst (the_serializer demo_env (dbStatementSerializer (getConfig ?I))
            (name (commands (client orphan_world) 0)) (args (commands (client orphan_world) 0))
            (client orphan_world)) = Return (JStr ''get'')"
    by (simp add: setConfig_def spread_def DEFAULT_CONFIG_def demo_config_def the_serializer_def
          demo_env_def orphan_world_def demo_client_def demo_command_def)
  have m: "semconvStability ?I = OLD"
    by (simp add: setConfig_def)
  note T = bypass_only_when_strictly_true
    [where E = demo_env and instr = ?I and original = orig_ok and mv = None and r = 0
       and rest = "[]" and w = orphan_world and as = "[]" and user = demo_config
       and v = JUndefined and mode = OLD, OF o]
  have A: "filter is_StartSpan
        (new_events orphan_world (snd (traceConnection ?I orig_ok [] orphan_world)))
       = [StartSpan 0 ''connect'' CLIENT (connect_attributes OLD (Some ''localhost'') (Some 6379))]"
    using T by (simp add: c m)
  have B: "\<exists>nm a. filter is_StartSpan
        (new_events orphan_world
           (snd (traceSendCommand demo_env ?I orig_ok None [JObj 0] orphan_world)))
       = [StartSpan 0 nm CLIENT a]"
    using T s by (simp add: c)
  have C: "requireParentSpan (getConfig ?I) = Some JUndefined"
    "requireParentSpan (getConfig (setConfig (demo_config\<lparr>requireParentSpan := None\<rparr>) OLD))
       = Some (JBool True)"
    using T by simp_all
  from o C c(4) A s B show ?thesis by (intro conjI)
qed

subsection \<open>C10\<close>

text \<open>
  Claim C10. The two callbacks are substituted only after the original dispatch has
  returned. When it throws, the wrapper leaves the client's state, and with it the
  command's success and failure callbacks, exactly as the original dispatch left them,
  and after the original's call it does nothing but close the span with the error.
  When the original returns, the two slots of the command hold the tracing closures
  around the callbacks that were there.
\<close>

theorem callbacks_substituted_after_return:
  fixes E :: "'c environment" and instr original mv r rest w
  defines "cfg \<equiv> getConfig instr"
  defines "w1 \<equiv> snd (start_command_span E instr cfg mv r w)"
  defines "c \<equiv> snd (original (JObj r # rest) (client w1))"
  defines "w' \<equiv> snd (traceSendCommand E instr original mv (JObj r # rest) w)"
  assumes traced: "\<not> (requireParentSpan cfg = Some (JBool True) \<and> active_span w = None)"
    and opened: "fst (start_command_span E instr cfg mv r w) = Return s"
  shows
    "(\<forall>e. fst (original (JObj r # rest) (client w1)) = Throw e \<longrightarrow>
          client w' = c
        \<and> resolve (commands (client w') r) = resolve (commands c r)
        \<and> reject (commands (client w') r) = reject (commands c r)
        \<and> new_events w1 w' =
            [CallOriginal (JObj r # rest), RecordException s e, SetStatus s ERROR (message e),
             EndSpan s])
   \<and> (\<forall>v. fst (original (JObj r # rest) (client w1)) = Return v \<longrightarrow>
          resolve (commands (client w') r) = TracedResolve cfg s r (resolve (commands c r))
        \<and> reject (commands (client w') r) = TracedReject s (reject (commands c r))
        \<and> new_events w1 w' = [CallOriginal (JObj r # rest)])"
proof -
  have A: "client w' = c \<and> new_events w1 w' =
            [CallOriginal (JObj r # rest), RecordException s e, SetStatus s ERROR (message e),
             EndSpan s]"
    if "fst (original (JObj r # rest) (client w1)) = Throw e" for e
    using traceSendCommand_thrown(2,3) [where original = original and rest = rest,
        OF traced [unfolded cfg_def] opened [unfolded cfg_def] that [unfolded w1_def cfg_def]]
    by (simp add: w'_def c_def w1_def cfg_def new_events_append closing_calls_Some)
  have B: "resolve (commands (client w') r) = TracedResolve cfg s r (resolve (commands c r))
        \<and> reject (commands (client w') r) = TracedReject s (reject (commands c r))
        \<and> new_events w1 w' = [CallOriginal (JObj r # rest)]"
    if "fst (original (JObj r # rest) (client w1)) = Return v" for v
    using traceSendCommand_returned(2,3) [where original = original and rest = rest,
        OF traced [unfolded cfg_def] opened [unfolded cfg_def] that [unfolded w1_def cfg_def]]
    by (simp add: w'_def c_def w1_def cfg_def new_events_append)
  from A B show ?thesis by simp
qed

theorem callbacks_substituted_after_return_witness:
  "\<not> (requireParentSpan (getConfig demo_instr) = Some (JBool True) \<and> active_span demo_world = None)
   \<and> fst (start_command_span demo_env demo_instr (getConfig demo_instr) None 0 demo_world) = Return 0
   \<and> fst (orig_fail [JObj 0]
        (client (snd (start_command_span demo_env demo_instr (getConfig demo_instr) None 0 demo_world))))
       = Throw (JsError ''boom'')
   \<and> resolve (commands (client (snd (traceSendCommand demo_env demo_instr orig_fail None [JObj 0]
                                       demo_world))) 0) = NativeResolve 7
   \<and> reject (commands (client (snd (traceSendCommand demo_env demo_instr orig_fail None [JObj 0]
                                       demo_world))) 0) = NativeReject 8
   \<and> fst (orig_ok [JObj 0]
        (client (snd (start_command_span demo_env demo_instr (getConfig demo_instr) None 0 demo_world))))
       = Return (JStr ''OK'')
   \<and> resolve (commands (client (snd (traceSendCommand demo_env demo_instr orig_ok None [JObj 0]
                                       demo_world))) 0)
       = TracedResolve (getConfig demo_instr) 0 0 (NativeResolve 7)
   \<and> reject (commands (client (snd (traceSendCommand demo_env demo_instr orig_ok None [JObj 0]
                                       demo_world))) 0)
       = TracedReject 0 (NativeReject 8)"
proof -
  note T1 = callbacks_substituted_after_return
    [where E = demo_env and instr = demo_instr and original = orig_fail and mv = None
       and r = 0 and rest = "[]" and w = demo_world and s = 0, OF demo_traced demo_opened]
  note T2 = callbacks_substituted_after_return
    [where E = demo_env and instr = demo_instr and original = orig_ok and mv = None
       and r = 0 and rest = "[]" and w = demo_world and s = 0, OF demo_traced demo_opened]
  have c1: "client (snd (start_command_span demo_env demo_instr (getConfig demo_instr) None 0
                           demo_world)) = demo_client"
    by (simp add: client_start_command_span demo_instr_config the_serializer_def demo_env_def
          demo_world_def)
  have k: "resolve (commands demo_client 0) = NativeResolve 7"
    "reject (commands demo_client 0) = NativeReject 8"
    by (simp_all add: demo_client_def demo_command_def)
  have o: "snd (orig_fail as demo_client) = demo_client" "snd (orig_ok as demo_client) = demo_client"
    for as
    by (simp_all add: orig_fail_def orig_ok_def)
  show ?thesis
    using T1 T2 demo_traced demo_opened orig_fail_throws orig_ok_returns
    by (simp add: c1 k o)
qed

end
